theory Spec2Isabelle
  imports Complex_Main
begin

section \<open>Python values and exceptions\<close>

text \<open>
  The booking layer of \<^verbatim>\<open>calcom_api.py\<close> is embedded function by function.
  A Python exception is a value of \<open>py_exc\<close>; a computation that may raise returns
  \<open>py_exc + 'a\<close> with \<open>Inl\<close> for the raised exception.
\<close>

type_synonym instant = int
  \<comment> \<open>a point in time: microseconds since the epoch (the resolution of Python's datetime)\<close>

text \<open>
  An aware \<^verbatim>\<open>datetime\<close> is the instant it denotes and the UTC offset of its \<^verbatim>\<open>tzinfo\<close>, in
  microseconds. Its wall clock is the instant plus the offset, and Python keeps wall
  clocks between \<^verbatim>\<open>datetime.min\<close> (0001-01-01 00:00:00) and \<^verbatim>\<open>datetime.max\<close>
  (9999-12-31 23:59:59.999999), here in microseconds since the epoch.
\<close>

record aware =
  instant_of :: instant
  utcoffset :: int

definition datetime_min :: int where
  "datetime_min = - 62135596800000000"

definition datetime_max :: int where
  "datetime_max = 253402300799999999"

subsection \<open>\<^verbatim>\<open>find_closest_duration\<close>\<close>

text \<open>
  Python's \<^verbatim>\<open>min(iterable, key=f)\<close>: one pass that keeps the best element so far and
  replaces it only by a strictly smaller key, so the first minimum wins. On an empty
  iterable it raises \<^verbatim>\<open>ValueError\<close>, which is \<open>None\<close> here.
\<close>

fun py_min_from :: "('a \<Rightarrow> int) \<Rightarrow> 'a \<Rightarrow> 'a list \<Rightarrow> 'a" where
  "py_min_from key best [] = best"
| "py_min_from key best (x # xs) = py_min_from key (if key x < key best then x else best) xs"

definition py_min :: "('a \<Rightarrow> int) \<Rightarrow> 'a list \<Rightarrow> 'a option" where
  "py_min key xs = (case xs of [] \<Rightarrow> None | x # rest \<Rightarrow> Some (py_min_from key x rest))"

definition valid_durations :: "int list" where
  "valid_durations =
     [5, 10, 15, 20, 25, 30, 45, 50, 60, 75, 80, 90, 120, 150, 180, 240, 300, 360, 420, 480]"

definition find_closest_duration :: "int \<Rightarrow> int option" where
  "find_closest_duration duration = py_min (\<lambda>x. \<bar>x - duration\<bar>) valid_durations"

section \<open>The external service\<close>

text \<open>
  What the booking API returns, as far as the code reads it: a booking detail
  (\<^verbatim>\<open>GET /bookings/{id}\<close>), a reference record (\<^verbatim>\<open>GET /booking-references\<close>) and
  the JSON body of a response. A key that \<^verbatim>\<open>.get\<close> may find absent is an option. The
  bodies are taken to be well-formed JSON of their endpoint: a key the code reads by
  subscript (\<^verbatim>\<open>ref['bookingId']\<close>, \<^verbatim>\<open>booking['startTime']\<close>) is a field, and an ISO
  timestamp is the instant it denotes.
\<close>

record attendee =
  a_email :: string
  a_timeZone :: string
  a_locale :: string

record booking =
  b_id :: int
  b_status :: string
  b_attendees :: "attendee list"
  b_startTime :: instant
  b_endTime :: instant
  b_description :: "string option"
  b_videoCallUrl :: "string option"

record booking_reference =
  ref_id :: int
  ref_bookingId :: int
  ref_deleted :: "string option"

record json_body =
  j_booking_references :: "booking_reference list option"
  j_booking :: "booking option"
  j_message :: "string option"
  j_videoCallUrl :: "string option"

record response =
  status_code :: nat
  reason_phrase :: string
  response_url :: string
  json :: json_body

datatype http_method = GET | POST | DELETE | PATCH

datatype url =
    BookingsUrl
  | BookingUrl int
  | BookingCancelUrl int
  | BookingReferencesUrl
  | BookingReferenceUrl int

record create_payload =
  p_start :: instant
  p_end :: instant
  p_eventTypeId :: int
  p_name :: string
  p_email :: string
  p_notes :: string
  p_timeZone :: string
  p_language :: string

datatype payload = NoJson | CreateJson create_payload | PatchJson instant instant

record http_request =
  rq_method :: http_method
  rq_url :: url
  rq_cancellationReason :: "string option"
  rq_json :: payload

text \<open>
  The exceptions the code raises or meets. \<open>HTTPError\<close> and \<open>ConnectionError\<close> are the
  \<^verbatim>\<open>RequestException\<close>s of the \<^verbatim>\<open>requests\<close> library: the first is raised by
  \<^verbatim>\<open>raise_for_status\<close> and carries the response, the second stands for every failure
  of the transport itself (no connection, timeout) and carries its text.
  \<open>OverflowError\<close> is what \<^verbatim>\<open>timedelta\<close> and \<^verbatim>\<open>datetime\<close> arithmetic raise outside their
  range. \<open>CalComBookingException\<close> and \<open>ToolException\<close> are raised by the tool wrappers
  of \<^verbatim>\<open>backend.py\<close>. \<open>LibraryError\<close> is any other exception a library function of the
  world raises (\<^verbatim>\<open>locale.Error\<close>, an unknown timezone), with its text.
\<close>

datatype py_exc =
    ValueError string
  | IndexError
  | AttributeError
  | UnboundLocalError
  | OverflowError
  | HTTPError response
  | ConnectionError string
  | LibraryError string
  | CalComBookingException string
  | ToolException string

definition is_HTTPError :: "py_exc \<Rightarrow> bool" where
  "is_HTTPError e = (case e of HTTPError r \<Rightarrow> True | _ \<Rightarrow> False)"

definition is_RequestException :: "py_exc \<Rightarrow> bool" where
  "is_RequestException e =
     (case e of HTTPError r \<Rightarrow> True | ConnectionError t \<Rightarrow> True | _ \<Rightarrow> False)"

definition is_ValueError :: "py_exc \<Rightarrow> bool" where
  "is_ValueError e = (case e of ValueError m \<Rightarrow> True | _ \<Rightarrow> False)"

subsection \<open>What the operations return\<close>

record create_summary =
  s_Date :: string
  s_Time :: string
  s_Duration :: string
  s_Reason :: string
  s_Name :: string
  s_Email :: string
  s_Meeting_Link :: string

text \<open>
  The text \<^verbatim>\<open>create_booking\<close> returns is \<^verbatim>\<open>json.dumps\<close> of one of two dictionaries:
  \<^verbatim>\<open>{"error": message}\<close> or the simplified response.
\<close>

datatype create_json = ErrorJson string | SummaryJson create_summary

record simplified_booking =
  sb_startTime :: string
  sb_endTime :: string
  sb_description :: "string option"
  sb_timezone :: "string option"
  sb_locale :: "string option"
  sb_videoCallUrl :: "string option"

datatype bookings_json = UserBookingsJson "simplified_booking list" | BookingsErrorJson string

section \<open>Effects\<close>

text \<open>
  The code talks to the service, sleeps, draws random numbers and reads the clock. The
  history of a run is the list of its requests and sleeps, oldest first. The world is a
  parameter \<open>env\<close>: what the service (or the network) answers to a request, the random
  draw and the clock may each depend on everything that happened before, so they are
  functions of the history. The rest of the world is a parameter as well:
  \<^item> \<open>get_localzone\<close> is \<^verbatim>\<open>str(get_localzone())\<close> and \<open>getlocale\<close> is
    \<^verbatim>\<open>locale.setlocale(locale.LC_ALL, '')\<close> followed by \<^verbatim>\<open>locale.getlocale()[0]\<close>, which
    is \<^verbatim>\<open>None\<close> under the C locale; either may raise;
  \<^item> \<open>strptime\<close> is \<^verbatim>\<open>datetime.strptime(s, "%Y-%m-%d %H:%M")\<close>, \<open>None\<close> for its
    \<^verbatim>\<open>ValueError\<close>;
  \<^item> \<open>localize tz\<close> is \<^verbatim>\<open>pytz.timezone(tz)\<close> followed by its \<^verbatim>\<open>localize\<close>: the first
    raises on an unknown zone name, the second raises \<^verbatim>\<open>OverflowError\<close> at the ends of
    the range of \<^verbatim>\<open>datetime\<close>;
  \<^item> \<open>strftime fmt tz t\<close> is the text of \<^verbatim>\<open>t.astimezone(tz).strftime(fmt)\<close> for a start or
    end the service recorded (\<open>None\<close>: no conversion), taken to succeed: the service's
    timestamps and timezone names are well formed; \<open>format_wall fmt w\<close> is
    \<^verbatim>\<open>strftime(fmt)\<close> of a datetime whose wall clock is \<open>w\<close>;
  \<^item> \<open>set_iter\<close> is the iteration order of a Python \<^verbatim>\<open>set\<close>; \<open>str_json\<close>, \<open>str_summary\<close>
    and \<open>dumps_bookings\<close> are the texts of JSON values; \<open>interpreter_text\<close> is the
    wording of the interpreter's own messages (\<^verbatim>\<open>str(e)\<close> of a built-in exception).
  Lengths of sleeps are real numbers.
\<close>

datatype event = Sent http_request | Slept real

datatype net_outcome = Resp response | NetFail string

type_synonym naive = int

record env =
  net :: "event list \<Rightarrow> http_request \<Rightarrow> net_outcome"
  uniform01 :: "event list \<Rightarrow> real"
  now :: "event list \<Rightarrow> instant"
  get_localzone :: "py_exc + string"
  getlocale :: "py_exc + string option"
  strptime :: "string \<Rightarrow> naive option"
  localize :: "string \<Rightarrow> naive \<Rightarrow> py_exc + aware"
  strftime :: "string \<Rightarrow> string option \<Rightarrow> instant \<Rightarrow> string"
  format_wall :: "string \<Rightarrow> int \<Rightarrow> string"
  set_iter :: "int list \<Rightarrow> int list"
  str_json :: "json_body option \<Rightarrow> string"
  str_summary :: "create_summary \<Rightarrow> string"
  dumps_bookings :: "simplified_booking list \<Rightarrow> string"
  interpreter_text :: "py_exc \<Rightarrow> string"

type_synonym 'a io = "event list \<Rightarrow> (py_exc + 'a) \<times> event list"

definition ret :: "'a \<Rightarrow> 'a io" where
  "ret x = (\<lambda>h. (Inr x, h))"

definition raise :: "py_exc \<Rightarrow> 'a io" where
  "raise e = (\<lambda>h. (Inl e, h))"

definition bind :: "'a io \<Rightarrow> ('a \<Rightarrow> 'b io) \<Rightarrow> 'b io" where
  "bind m k = (\<lambda>h. case m h of (Inl e, h') \<Rightarrow> (Inl e, h') | (Inr x, h') \<Rightarrow> k x h')"

text \<open>\<^verbatim>\<open>try: m  except C as e: handler(e)\<close>, where \<open>catches\<close> is the test \<^verbatim>\<open>isinstance(e, C)\<close>.\<close>

definition try_except :: "'a io \<Rightarrow> (py_exc \<Rightarrow> bool) \<Rightarrow> (py_exc \<Rightarrow> 'a io) \<Rightarrow> 'a io" where
  "try_except m catches handler =
     (\<lambda>h. case m h of
        (Inl e, h') \<Rightarrow> if catches e then handler e h' else (Inl e, h')
      | (Inr x, h') \<Rightarrow> (Inr x, h'))"

text \<open>
  \<^verbatim>\<open>requests.request(method, url, **kwargs)\<close>: the request is issued; the transport fails
  with a \<open>ConnectionError\<close> or returns the response, whatever its status.
\<close>

definition requests_request :: "env \<Rightarrow> http_request \<Rightarrow> response io" where
  "requests_request env rq =
     (\<lambda>h. case net env h rq of
        Resp r \<Rightarrow> (Inr r, h @ [Sent rq])
      | NetFail t \<Rightarrow> (Inl (ConnectionError t), h @ [Sent rq]))"

definition raise_for_status :: "response \<Rightarrow> unit io" where
  "raise_for_status r =
     (if 400 \<le> status_code r \<and> status_code r < 600 then raise (HTTPError r) else ret ())"

definition time_sleep :: "real \<Rightarrow> unit io" where
  "time_sleep t = (\<lambda>h. (Inr (), h @ [Slept t]))"

definition random_uniform01 :: "env \<Rightarrow> real io" where
  "random_uniform01 env = (\<lambda>h. (Inr (uniform01 env h), h))"

definition datetime_now :: "env \<Rightarrow> instant io" where
  "datetime_now env = (\<lambda>h. (Inr (now env h), h))"

subsection \<open>\<^verbatim>\<open>retry_with_backoff\<close> and \<^verbatim>\<open>make_api_request\<close>\<close>

text \<open>
  The loop \<^verbatim>\<open>for attempt in range(max_retries)\<close> is a recursion over the list of the
  attempts still to make. A run that leaves the loop without returning or raising falls
  off the end of \<^verbatim>\<open>wrapper\<close>, which returns \<^verbatim>\<open>None\<close>: the result of the wrapper is an
  option.
\<close>

fun retry_loop :: "env \<Rightarrow> 'a io \<Rightarrow> nat \<Rightarrow> nat list \<Rightarrow> nat \<Rightarrow> 'a option io" where
  "retry_loop env func max_retries [] retry_delay = ret None"
| "retry_loop env func max_retries (attempt # rest) retry_delay =
     try_except (bind func (\<lambda>v. ret (Some v))) is_HTTPError
       (\<lambda>e. case e of
          HTTPError r \<Rightarrow>
            if status_code r = 429 then
              if attempt = max_retries - 1 then raise e
              else bind (random_uniform01 env) (\<lambda>u.
                   let sleep_time = real retry_delay + u in
                   bind (time_sleep sleep_time) (\<lambda>_.
                   retry_loop env func max_retries rest (retry_delay * 2)))
            else raise e
        | _ \<Rightarrow> raise e)"

definition retry_with_backoff :: "env \<Rightarrow> 'a io \<Rightarrow> 'a option io" where
  "retry_with_backoff env func = retry_loop env func 5 [0..<5] 1"

text \<open>The undecorated body of \<^verbatim>\<open>make_api_request\<close>, and the decorated function.\<close>

definition make_api_request_body :: "env \<Rightarrow> http_request \<Rightarrow> response io" where
  "make_api_request_body env rq =
     bind (requests_request env rq) (\<lambda>response.
     bind (raise_for_status response) (\<lambda>_.
     ret response))"

definition make_api_request :: "env \<Rightarrow> http_request \<Rightarrow> response option io" where
  "make_api_request env rq = retry_with_backoff env (make_api_request_body env rq)"

text \<open>
  Attribute access on what the wrapper returned: \<^verbatim>\<open>response.json()\<close> and
  \<^verbatim>\<open>response.status_code\<close> raise \<^verbatim>\<open>AttributeError\<close> on \<^verbatim>\<open>None\<close>.
\<close>

definition response_json :: "response option \<Rightarrow> json_body io" where
  "response_json response =
     (case response of None \<Rightarrow> raise AttributeError | Some r \<Rightarrow> ret (json r))"

definition response_status_code :: "response option \<Rightarrow> nat io" where
  "response_status_code response =
     (case response of None \<Rightarrow> raise AttributeError | Some r \<Rightarrow> ret (status_code r))"

subsection \<open>Python helpers\<close>

definition dict_get :: "'a option \<Rightarrow> 'a \<Rightarrow> 'a" where
  "dict_get v dflt = (case v of None \<Rightarrow> dflt | Some x \<Rightarrow> x)"

definition truthy_str :: "string option \<Rightarrow> bool" where
  "truthy_str v = (case v of None \<Rightarrow> False | Some x \<Rightarrow> x \<noteq> [])"

definition truthy_int :: "int option \<Rightarrow> bool" where
  "truthy_int v = (case v of None \<Rightarrow> False | Some x \<Rightarrow> x \<noteq> 0)"

text \<open>\<^verbatim>\<open>a or b\<close> for an optional string \<open>a\<close> and a string \<open>b\<close>.\<close>

definition py_or :: "string option \<Rightarrow> string \<Rightarrow> string" where
  "py_or a b = (case a of None \<Rightarrow> b | Some x \<Rightarrow> if x \<noteq> [] then x else b)"

fun starts_with :: "string \<Rightarrow> string \<Rightarrow> bool" where
  "starts_with [] ys = True"
| "starts_with (x # xs) [] = False"
| "starts_with (x # xs) (y # ys) = (x = y \<and> starts_with xs ys)"

text \<open>\<^verbatim>\<open>sub in text\<close> on strings.\<close>

fun py_in :: "string \<Rightarrow> string \<Rightarrow> bool" where
  "py_in sub [] = (sub = [])"
| "py_in sub (y # ys) = (starts_with sub (y # ys) \<or> py_in sub ys)"

fun join :: "string \<Rightarrow> string list \<Rightarrow> string" where
  "join sep [] = []"
| "join sep [x] = x"
| "join sep (x # y # ys) = x @ sep @ join sep (y # ys)"

fun str_nat :: "nat \<Rightarrow> string" where
  "str_nat n = (if n < 10 then [char_of (48 + n)] else str_nat (n div 10) @ [char_of (48 + n mod 10)])"

declare str_nat.simps [simp del]

definition str_int :: "int \<Rightarrow> string" where
  "str_int i = (if i < 0 then ''-'' @ str_nat (nat (- i)) else str_nat (nat i))"

text \<open>
  \<^verbatim>\<open>str(e)\<close>. The text of an \<open>HTTPError\<close> is the one \<^verbatim>\<open>raise_for_status\<close> builds from
  the status, the reason phrase and the URL of the response. \<open>ValueError\<close>s and the
  exceptions of the tool wrappers carry the text the code gave them.
\<close>

definition http_error_msg :: "response \<Rightarrow> string" where
  "http_error_msg r =
     str_nat (status_code r)
     @ (if status_code r < 500 then '' Client Error: '' else '' Server Error: '')
     @ reason_phrase r @ '' for url: '' @ response_url r"

definition str_exc :: "env \<Rightarrow> py_exc \<Rightarrow> string" where
  "str_exc env e =
     (case e of
        ValueError m \<Rightarrow> m
      | HTTPError r \<Rightarrow> http_error_msg r
      | ConnectionError t \<Rightarrow> t
      | LibraryError t \<Rightarrow> t
      | CalComBookingException m \<Rightarrow> m
      | ToolException m \<Rightarrow> m
      | _ \<Rightarrow> interpreter_text env e)"

text \<open>A library call that may raise, as a step of a computation.\<close>

definition lift :: "py_exc + 'a \<Rightarrow> 'a io" where
  "lift r = (case r of Inl e \<Rightarrow> raise e | Inr x \<Rightarrow> ret x)"

text \<open>
  \<^verbatim>\<open>timedelta(minutes=d)\<close>, in microseconds: the constructor normalizes to days, seconds
  and microseconds and raises \<^verbatim>\<open>OverflowError\<close> unless the days are at most 999999999 in
  magnitude.
\<close>

definition timedelta_minutes :: "int \<Rightarrow> py_exc + int" where
  "timedelta_minutes d =
     (if - 999999999 \<le> d div 1440 \<and> d div 1440 \<le> 999999999 then Inr (d * 60000000)
      else Inl OverflowError)"

text \<open>
  \<^verbatim>\<open>dt + delta\<close> for an aware datetime: the wall clock moves by \<open>delta\<close> and the
  \<^verbatim>\<open>tzinfo\<close> stays; \<^verbatim>\<open>OverflowError\<close> when the new wall clock leaves the range.
\<close>

definition datetime_add :: "aware \<Rightarrow> int \<Rightarrow> py_exc + aware" where
  "datetime_add dt delta =
     (if datetime_min \<le> instant_of dt + utcoffset dt + delta
         \<and> instant_of dt + utcoffset dt + delta \<le> datetime_max
      then Inr (dt\<lparr>instant_of := instant_of dt + delta\<rparr>)
      else Inl OverflowError)"

definition wall_clock :: "aware \<Rightarrow> int" where
  "wall_clock dt = instant_of dt + utcoffset dt"

subsection \<open>\<^verbatim>\<open>get_system_info\<close>\<close>

text \<open>
  \<^verbatim>\<open>locale.getlocale()[0].split('_')[0]\<close>: the part of the locale name before its first
  underscore; an \<^verbatim>\<open>AttributeError\<close> when the name is \<^verbatim>\<open>None\<close>.
\<close>

definition get_system_info :: "env \<Rightarrow> (string \<times> string) io" where
  "get_system_info env =
     bind (lift (get_localzone env)) (\<lambda>timezone.
     bind (lift (getlocale env)) (\<lambda>locale_name.
       case locale_name of
         None \<Rightarrow> raise AttributeError
       | Some l \<Rightarrow> ret (timezone, takeWhile (\<lambda>c. c \<noteq> CHR ''_'') l)))"

subsection \<open>\<^verbatim>\<open>create_booking\<close>\<close>

definition missing_fields :: "string \<Rightarrow> string \<Rightarrow> string \<Rightarrow> string \<Rightarrow> string \<Rightarrow> string list" where
  "missing_fields name email date time reason =
     (if name = [] then [''name''] else [])
     @ (if email = [] then [''email''] else [])
     @ (if date = [] \<or> time = [] then [''date and time''] else [])
     @ (if reason = [] then [''reason''] else [])"

text \<open>The branch taken on a response whose status is not 200.\<close>

definition create_error ::
  "string \<Rightarrow> int \<Rightarrow> int \<Rightarrow> string \<Rightarrow> string \<Rightarrow> string \<Rightarrow> string \<Rightarrow> string \<Rightarrow> create_json" where
  "create_error error_message duration adjusted_duration name email date time reason =
     (if py_in ''Invalid event length'' error_message then
        ErrorJson (''Error: The requested duration ('' @ str_int duration
          @ '' minutes) is not valid. The closest valid duration ('' @ str_int adjusted_duration
          @ '' minutes) will be used instead.'')
      else if py_in ''Attempting to book a meeting in the past'' error_message then
        ErrorJson ''Error: Cannot book a meeting in the past. Please choose a future date and time.''
      else if py_in ''invalid_type'' error_message then
        (if missing_fields name email date time reason \<noteq> [] then
           ErrorJson (''Error: Missing required information. Please provide: ''
             @ join '', '' (missing_fields name email date time reason) @ ''.'')
         else ErrorJson ''Error: Invalid input. Please check all provided information and try again.'')
      else ErrorJson (''Error creating booking: '' @ error_message))"

definition create_request ::
  "instant \<Rightarrow> instant \<Rightarrow> string \<Rightarrow> string \<Rightarrow> string \<Rightarrow> string \<Rightarrow> string \<Rightarrow> http_request" where
  "create_request start_time end_time name email reason timezone language =
     \<lparr>rq_method = POST, rq_url = BookingsUrl, rq_cancellationReason = None,
      rq_json = CreateJson
        \<lparr>p_start = start_time, p_end = end_time, p_eventTypeId = 1202446,
         p_name = name, p_email = email, p_notes = reason,
         p_timeZone = timezone, p_language = language\<rparr>\<rparr>"

text \<open>
  The first \<^verbatim>\<open>try\<close> block either returns early from the function (the past-time
  message, or the format message of its \<^verbatim>\<open>except ValueError\<close>) or leaves the start and
  the end: \<open>Inl\<close> is the early return. The end is computed before the start is compared
  with the clock, and only a \<^verbatim>\<open>ValueError\<close> is caught.
\<close>

definition create_resolve ::
  "env \<Rightarrow> string \<Rightarrow> string \<Rightarrow> string \<Rightarrow> int \<Rightarrow> (create_json + aware \<times> aware) io" where
  "create_resolve env timezone date time adjusted_duration =
     try_except
       (case strptime env (date @ '' '' @ time) of
          None \<Rightarrow> raise (ValueError ''time data does not match format'')
        | Some naive \<Rightarrow>
            bind (lift (localize env timezone naive)) (\<lambda>start_time.
            bind (lift (timedelta_minutes adjusted_duration)) (\<lambda>delta.
            bind (lift (datetime_add start_time delta)) (\<lambda>end_time.
            bind (datetime_now env) (\<lambda>now_local.
              if instant_of start_time < now_local then
                ret (Inl (ErrorJson
                  ''Cannot book a meeting in the past. Please choose a future date and time.''))
              else ret (Inr (start_time, end_time)))))))
       is_ValueError
       (\<lambda>e. ret (Inl (ErrorJson
          ''Invalid date or time format. Please use YYYY-MM-DD for date and HH:MM for time.'')))"

definition create_booking ::
  "env \<Rightarrow> string \<Rightarrow> string \<Rightarrow> int \<Rightarrow> string \<Rightarrow> string \<Rightarrow> string \<Rightarrow> create_json io" where
  "create_booking env date time duration reason name email =
     bind (get_system_info env) (\<lambda>(timezone, language).
     case find_closest_duration duration of
       None \<Rightarrow> raise (ValueError ''min() arg is an empty sequence'')
     | Some adjusted_duration \<Rightarrow>
         bind (create_resolve env timezone date time adjusted_duration) (\<lambda>resolved.
         case resolved of
           Inl early \<Rightarrow> ret early
         | Inr (start_time, end_time) \<Rightarrow>
             try_except
               (bind (requests_request env
                        (create_request (instant_of start_time) (instant_of end_time)
                           name email reason timezone language))
                  (\<lambda>response.
                     if status_code response = 200 then
                       ret (SummaryJson
                         \<lparr>s_Date = format_wall env ''%B %d, %Y'' (wall_clock start_time),
                          s_Time = format_wall env ''%I:%M %p'' (wall_clock start_time) @ '' to ''
                            @ format_wall env ''%I:%M %p'' (wall_clock end_time)
                            @ '' ('' @ timezone @ '')'',
                          s_Duration = str_int adjusted_duration @ '' minutes'',
                          s_Reason = reason, s_Name = name, s_Email = email,
                          s_Meeting_Link = dict_get (j_videoCallUrl (json response))
                            ''No video call link provided''\<rparr>)
                     else
                       ret (create_error (dict_get (j_message (json response)) ''Unknown error'')
                              duration adjusted_duration name email date time reason)))
               is_RequestException
               (\<lambda>e. ret (ErrorJson (''Error creating booking: '' @ str_exc env e)))))"


subsection \<open>Booking retrieval\<close>

definition get_request :: "url \<Rightarrow> http_request" where
  "get_request u = \<lparr>rq_method = GET, rq_url = u, rq_cancellationReason = None, rq_json = NoJson\<rparr>"

definition delete_request :: "url \<Rightarrow> string option \<Rightarrow> http_request" where
  "delete_request u cancellation_reason =
     \<lparr>rq_method = DELETE, rq_url = u, rq_cancellationReason = cancellation_reason, rq_json = NoJson\<rparr>"

text \<open>
  The loop \<^verbatim>\<open>for booking_id in unique_booking_ids\<close> of \<^verbatim>\<open>_get_user_bookings_detailed\<close>.
  A body without the key \<^verbatim>\<open>booking\<close> gives the empty dictionary, which has no attendees
  and is skipped.
\<close>

fun fetch_user_bookings :: "env \<Rightarrow> string \<Rightarrow> int list \<Rightarrow> booking list \<Rightarrow> booking list io" where
  "fetch_user_bookings env user_email [] user_bookings = ret user_bookings"
| "fetch_user_bookings env user_email (booking_id # ids) user_bookings =
     bind (make_api_request env (get_request (BookingUrl booking_id))) (\<lambda>booking_response.
     bind (response_json booking_response) (\<lambda>body.
       case j_booking body of
         None \<Rightarrow> fetch_user_bookings env user_email ids user_bookings
       | Some booking_data \<Rightarrow>
           if b_status booking_data \<noteq> ''CANCELLED''
              \<and> list_ex (\<lambda>attendee. a_email attendee = user_email) (b_attendees booking_data)
           then fetch_user_bookings env user_email ids (user_bookings @ [booking_data])
           else fetch_user_bookings env user_email ids user_bookings))"

text \<open>The \<^verbatim>\<open>try\<close> block of \<^verbatim>\<open>_get_user_bookings_detailed\<close>, and the function with its handler.\<close>

definition get_user_bookings_detailed_try :: "env \<Rightarrow> string \<Rightarrow> booking list io" where
  "get_user_bookings_detailed_try env user_email =
     bind (make_api_request env (get_request BookingReferencesUrl)) (\<lambda>response.
     bind (response_json response) (\<lambda>body.
       let booking_references = dict_get (j_booking_references body) [];
           unique_booking_ids =
             set_iter env (map ref_bookingId
               (filter (\<lambda>ref. ref_deleted ref = None) booking_references))
       in fetch_user_bookings env user_email unique_booking_ids []))"

definition get_user_bookings_detailed :: "env \<Rightarrow> string \<Rightarrow> booking list io" where
  "get_user_bookings_detailed env user_email =
     try_except (get_user_bookings_detailed_try env user_email) is_RequestException (\<lambda>e. ret [])"

definition simplify_booking :: "env \<Rightarrow> string \<Rightarrow> booking \<Rightarrow> simplified_booking" where
  "simplify_booking env user_email booking_data =
     (let attendees = b_attendees booking_data;
          user_timezone =
            map_option a_timeZone (find (\<lambda>attendee. a_email attendee = user_email) attendees);
          zone = (if truthy_str user_timezone then user_timezone else None)
      in \<lparr>sb_startTime = strftime env ''%Y-%m-%d %H:%M:%S %Z'' zone (b_startTime booking_data),
          sb_endTime = strftime env ''%Y-%m-%d %H:%M:%S %Z'' zone (b_endTime booking_data),
          sb_description = b_description booking_data,
          sb_timezone = user_timezone,
          sb_locale =
            map_option a_locale (find (\<lambda>attendee. a_email attendee = user_email) attendees),
          sb_videoCallUrl = b_videoCallUrl booking_data\<rparr>)"

definition get_user_bookings :: "env \<Rightarrow> string \<Rightarrow> bookings_json io" where
  "get_user_bookings env user_email =
     try_except
       (bind (get_user_bookings_detailed env user_email) (\<lambda>detailed_bookings.
        ret (UserBookingsJson (map (simplify_booking env user_email) detailed_bookings))))
       is_RequestException
       (\<lambda>e. ret (BookingsErrorJson (''Error fetching user bookings: '' @ str_exc env e)))"

text \<open>
  \<^verbatim>\<open>CalComGetUserBookingsTool._run\<close> of \<^verbatim>\<open>backend.py\<close>: the list under the key
  \<^verbatim>\<open>user_bookings\<close> of the returned JSON, empty when the key is absent.
\<close>

definition bookings_tool_run :: "env \<Rightarrow> string \<Rightarrow> string io" where
  "bookings_tool_run env email =
     try_except
       (bind (get_user_bookings env email) (\<lambda>result.
        let bookings = (case result of UserBookingsJson bs \<Rightarrow> bs | BookingsErrorJson m \<Rightarrow> [])
        in if bookings \<noteq> [] then
             ret (''Found '' @ str_nat (length bookings) @ '' bookings for '' @ email
                  @ ''. Booking details: '' @ dumps_bookings env bookings)
           else ret (''No bookings found for '' @ email @ ''.'')))
       (\<lambda>e. True)
       (\<lambda>e. raise (ToolException
          (''An error occurred while fetching user bookings: '' @ str_exc env e)))"

subsection \<open>\<^verbatim>\<open>_find_booking\<close> and \<^verbatim>\<open>cancel_user_booking\<close>\<close>

text \<open>
  The search loop of \<^verbatim>\<open>_find_booking\<close>: the start of each booking is moved to the
  timezone of the booking's first attendee (\<^verbatim>\<open>booking['attendees'][0]\<close>, an
  \<^verbatim>\<open>IndexError\<close> when there is none) and formatted to the minute.
\<close>

fun find_matching :: "env \<Rightarrow> string \<Rightarrow> booking list \<Rightarrow> booking option io" where
  "find_matching env target_datetime [] = ret None"
| "find_matching env target_datetime (booking # rest) =
     (case b_attendees booking of
        [] \<Rightarrow> raise IndexError
      | first_attendee # others \<Rightarrow>
          if strftime env ''%Y-%m-%dT%H:%M:00'' (Some (a_timeZone first_attendee))
               (b_startTime booking) = target_datetime
          then ret (Some booking)
          else find_matching env target_datetime rest)"

definition find_booking :: "env \<Rightarrow> string \<Rightarrow> string \<Rightarrow> string \<Rightarrow> booking option io" where
  "find_booking env user_email meeting_date meeting_time =
     bind (get_user_bookings_detailed env user_email) (\<lambda>user_bookings.
     find_matching env (meeting_date @ ''T'' @ meeting_time @ '':00'') user_bookings)"

text \<open>The loop \<^verbatim>\<open>for reference in booking_references\<close> of \<^verbatim>\<open>cancel_user_booking\<close>.\<close>

fun delete_reference ::
  "env \<Rightarrow> int \<Rightarrow> string \<Rightarrow> string \<Rightarrow> string \<Rightarrow> booking_reference list \<Rightarrow> string io" where
  "delete_reference env booking_id user_email meeting_date meeting_time [] =
     ret (''Successfully cancelled booking for '' @ user_email @ '' on '' @ meeting_date
          @ '' at '' @ meeting_time @ '', but no matching reference found to delete'')"
| "delete_reference env booking_id user_email meeting_date meeting_time (reference # rest) =
     (if ref_bookingId reference = booking_id then
        bind (make_api_request env
                (delete_request (BookingReferenceUrl (ref_id reference)) None)) (\<lambda>delete_response.
        bind (response_status_code delete_response) (\<lambda>status.
          if status = 200 then
            ret (''Successfully cancelled booking and deleted reference for '' @ user_email
                 @ '' on '' @ meeting_date @ '' at '' @ meeting_time)
          else
            bind (response_json delete_response) (\<lambda>body.
            ret (''Booking cancelled but error deleting reference: ''
                 @ dict_get (j_message body) ''Unknown error''))))
      else delete_reference env booking_id user_email meeting_date meeting_time rest)"

definition cancel_user_booking ::
  "env \<Rightarrow> string \<Rightarrow> string \<Rightarrow> string \<Rightarrow> string option \<Rightarrow> string io" where
  "cancel_user_booking env user_email meeting_date meeting_time cancellation_reason =
     bind (find_booking env user_email meeting_date meeting_time) (\<lambda>matching_booking.
     case matching_booking of
       None \<Rightarrow>
         ret (''Error: No booking found for '' @ user_email @ '' on '' @ meeting_date
              @ '' at '' @ meeting_time)
     | Some found \<Rightarrow>
         (let booking_id = b_id found in
          try_except
            (bind (make_api_request env
                     (delete_request (BookingCancelUrl booking_id)
                        (if truthy_str cancellation_reason then cancellation_reason else None)))
               (\<lambda>cancel_response.
             bind (response_status_code cancel_response) (\<lambda>status.
               if status = 200 then
                 bind (make_api_request env (get_request BookingReferencesUrl))
                   (\<lambda>references_response.
                 bind (response_json references_response) (\<lambda>body.
                   delete_reference env booking_id user_email meeting_date meeting_time
                     (dict_get (j_booking_references body) [])))
               else
                 bind (response_json cancel_response) (\<lambda>body.
                 ret (''Error cancelling booking: '' @ dict_get (j_message body) ''Unknown error'')))))
            is_RequestException
            (\<lambda>e. ret (''Error cancelling booking or deleting reference: '' @ str_exc env e))))"

text \<open>\<^verbatim>\<open>CalComCancelBookingTool._run\<close> of \<^verbatim>\<open>backend.py\<close>.\<close>

definition cancel_tool_run ::
  "env \<Rightarrow> string \<Rightarrow> string \<Rightarrow> string \<Rightarrow> string option \<Rightarrow> string io" where
  "cancel_tool_run env email date time reason =
     try_except
       (cancel_user_booking env email date time reason)
       (\<lambda>e. True)
       (\<lambda>e. raise (ToolException
          (''An error occurred while cancelling the booking: '' @ str_exc env e)))"

subsection \<open>\<^verbatim>\<open>reschedule_booking\<close>\<close>

definition patch_request :: "int \<Rightarrow> instant \<Rightarrow> instant \<Rightarrow> http_request" where
  "patch_request booking_id start_time end_time =
     \<lparr>rq_method = PATCH, rq_url = BookingUrl booking_id, rq_cancellationReason = None,
      rq_json = PatchJson start_time end_time\<rparr>"

text \<open>
  The new start: the new date and time (each defaulting to the current one) parsed and
  localized in the timezone of the booking's first attendee, or the original start, which
  the service records in UTC. \<^verbatim>\<open>strptime\<close> is not inside a \<^verbatim>\<open>try\<close> here: its
  \<^verbatim>\<open>ValueError\<close> propagates, as does whatever the localization raises. The zone name is
  the one the search has just converted the start of this booking with.
\<close>

definition reschedule_start ::
  "env \<Rightarrow> booking \<Rightarrow> string \<Rightarrow> string \<Rightarrow> string \<Rightarrow> string option \<Rightarrow> string option \<Rightarrow> aware io" where
  "reschedule_start env found timezone meeting_date meeting_time new_date new_time =
     (if truthy_str new_date \<or> truthy_str new_time then
        (case strptime env (py_or new_date meeting_date @ '' '' @ py_or new_time meeting_time) of
           None \<Rightarrow> raise (ValueError ''time data does not match format'')
         | Some naive \<Rightarrow> lift (localize env timezone naive))
      else ret \<lparr>instant_of = b_startTime found, utcoffset = 0\<rparr>)"

text \<open>
  The new end: the start plus \<^verbatim>\<open>timedelta(minutes=new_duration)\<close>, the raw value, or plus
  the original length. Either addition can raise \<^verbatim>\<open>OverflowError\<close>, and it is made before
  the start is compared with the clock.
\<close>

definition reschedule_end :: "booking \<Rightarrow> aware \<Rightarrow> int option \<Rightarrow> py_exc + aware" where
  "reschedule_end found start_time new_duration =
     (if truthy_int new_duration then
        (case timedelta_minutes (dict_get new_duration 0) of
           Inl e \<Rightarrow> Inl e
         | Inr delta \<Rightarrow> datetime_add start_time delta)
      else datetime_add start_time (b_endTime found - b_startTime found))"

text \<open>
  The final \<^verbatim>\<open>try\<close> block. Its handler prints \<^verbatim>\<open>response.text\<close> before it re-raises:
  when \<^verbatim>\<open>requests.patch\<close> itself raised, \<^verbatim>\<open>response\<close> was never bound and the handler
  raises \<^verbatim>\<open>UnboundLocalError\<close> instead.
\<close>

definition reschedule_submit :: "env \<Rightarrow> http_request \<Rightarrow> json_body io" where
  "reschedule_submit env rq =
     (\<lambda>h. case requests_request env rq h of
        (Inl e, h') \<Rightarrow> if is_RequestException e then (Inl UnboundLocalError, h') else (Inl e, h')
      | (Inr response, h') \<Rightarrow>
          try_except
            (bind (raise_for_status response) (\<lambda>_. ret (json response)))
            is_RequestException
            (\<lambda>e. raise e) h')"

definition reschedule_booking_body ::
  "env \<Rightarrow> string \<Rightarrow> string \<Rightarrow> string \<Rightarrow> string option \<Rightarrow> string option \<Rightarrow> int option
     \<Rightarrow> json_body io" where
  "reschedule_booking_body env user_email meeting_date meeting_time new_date new_time new_duration =
     (if \<not> truthy_str new_date \<and> \<not> truthy_str new_time \<and> \<not> truthy_int new_duration then
        raise (ValueError ''No new values provided for rescheduling'')
      else
        bind (find_booking env user_email meeting_date meeting_time) (\<lambda>matching_booking.
        case matching_booking of
          None \<Rightarrow>
            raise (ValueError (''No booking found for '' @ user_email @ '' on '' @ meeting_date
                               @ '' at '' @ meeting_time))
        | Some found \<Rightarrow>
            (case b_attendees found of
               [] \<Rightarrow> raise IndexError
             | first_attendee # others \<Rightarrow>
                 bind (reschedule_start env found (a_timeZone first_attendee)
                         meeting_date meeting_time new_date new_time) (\<lambda>start_time.
                 bind (lift (reschedule_end found start_time new_duration)) (\<lambda>end_time.
                 bind (datetime_now env) (\<lambda>now_local.
                   if instant_of start_time < now_local then
                     raise (ValueError
                       ''Cannot reschedule a meeting to a past date and time. Please choose a future date and time.'')
                   else
                     reschedule_submit env
                       (patch_request (b_id found) (instant_of start_time)
                          (instant_of end_time))))))))"

text \<open>\<^verbatim>\<open>reschedule_booking\<close> is decorated with \<^verbatim>\<open>@retry_with_backoff\<close>.\<close>

definition reschedule_booking ::
  "env \<Rightarrow> string \<Rightarrow> string \<Rightarrow> string \<Rightarrow> string option \<Rightarrow> string option \<Rightarrow> int option
     \<Rightarrow> json_body option io" where
  "reschedule_booking env user_email meeting_date meeting_time new_date new_time new_duration =
     retry_with_backoff env
       (reschedule_booking_body env user_email meeting_date meeting_time new_date new_time
          new_duration)"

text \<open>\<^verbatim>\<open>CalComRescheduleBookingTool._run\<close> of \<^verbatim>\<open>backend.py\<close>.\<close>

definition reschedule_tool_run ::
  "env \<Rightarrow> string \<Rightarrow> string \<Rightarrow> string \<Rightarrow> string option \<Rightarrow> string option \<Rightarrow> int option
     \<Rightarrow> string io" where
  "reschedule_tool_run env email current_date current_time new_date new_time new_duration =
     try_except
       (bind (reschedule_booking env email current_date current_time new_date new_time new_duration)
          (\<lambda>result.
        ret (''Booking rescheduled successfully. Updated booking details: '' @ str_json env result)))
       (\<lambda>e. True)
       (\<lambda>e. raise (ToolException
          (''An error occurred while rescheduling the booking: '' @ str_exc env e)))"

section \<open>Notions used in the statements\<close>

subsection \<open>Runs of the retrying wrapper\<close>

definition is_429 :: "py_exc \<Rightarrow> bool" where
  "is_429 e = (case e of HTTPError resp \<Rightarrow> status_code resp = 429 | _ \<Rightarrow> False)"

definition rate_limited :: "(py_exc + 'a) \<Rightarrow> bool" where
  "rate_limited r = (case r of Inl e \<Rightarrow> is_429 e | Inr v \<Rightarrow> False)"

text \<open>What the wrapper makes of the outcome of the attempt it ends with.\<close>

definition returned :: "(py_exc + 'a) \<Rightarrow> (py_exc + 'a option)" where
  "returned r = (case r of Inl e \<Rightarrow> Inl e | Inr v \<Rightarrow> Inr (Some v))"

text \<open>
  The history at the start of attempt \<open>k\<close> (counted from 0) of the wrapped \<open>func\<close>, when
  every earlier attempt was rate limited: each earlier attempt is followed by one sleep
  whose length is the delay \<open>1 * 2 ^ j\<close> plus the random draw made at that moment.
\<close>

fun attempt_history :: "env \<Rightarrow> 'a io \<Rightarrow> nat \<Rightarrow> event list \<Rightarrow> event list" where
  "attempt_history env func 0 h = h"
| "attempt_history env func (Suc k) h =
     (let h' = snd (func (attempt_history env func k h))
      in h' @ [Slept (1 * 2 ^ k + uniform01 env h')])"

definition answered_429 :: "net_outcome \<Rightarrow> bool" where
  "answered_429 a = (case a of Resp r \<Rightarrow> status_code r = 429 | NetFail t \<Rightarrow> False)"

text \<open>The outcome of one attempt of the transport, read off the answer of the network.\<close>

definition attempt_outcome :: "net_outcome \<Rightarrow> py_exc + response" where
  "attempt_outcome a =
     (case a of
        NetFail t \<Rightarrow> Inl (ConnectionError t)
      | Resp r \<Rightarrow>
          if 400 \<le> status_code r \<and> status_code r < 600 then Inl (HTTPError r) else Inr r)"

fun transport_history :: "env \<Rightarrow> http_request \<Rightarrow> nat \<Rightarrow> event list \<Rightarrow> event list" where
  "transport_history env rq 0 h = h"
| "transport_history env rq (Suc k) h =
     (let h' = transport_history env rq k h @ [Sent rq]
      in h' @ [Slept (1 * 2 ^ k + uniform01 env h')])"

fun sleeps_of :: "event list \<Rightarrow> real list" where
  "sleeps_of [] = []"
| "sleeps_of (Sent rq # evs) = sleeps_of evs"
| "sleeps_of (Slept t # evs) = t # sleeps_of evs"

fun requests_of :: "event list \<Rightarrow> http_request list" where
  "requests_of [] = []"
| "requests_of (Sent rq # evs) = rq # requests_of evs"
| "requests_of (Slept t # evs) = requests_of evs"

subsection \<open>A small world for the worked examples\<close>

text \<open>
  One booking, number 7, from 10:00 to 10:30 UTC on 1 January 2030, with one reference
  record, number 3. The service answers every request with the status \<open>status\<close> gives
  it, and the URL of a response is the URL of the request with the key \<^verbatim>\<open>KEY\<close> (the
  examples give no cancellation reason). The
  library functions are tables over the few dates the examples use; Tokyo is nine hours
  ahead of UTC and London is on UTC in January. The system is in London with the locale
  \<^verbatim>\<open>en_GB\<close>.
\<close>

definition empty_json :: json_body where
  "empty_json =
     \<lparr>j_booking_references = None, j_booking = None, j_message = None, j_videoCallUrl = None\<rparr>"

definition demo_booking :: "attendee list \<Rightarrow> booking" where
  "demo_booking attendees =
     \<lparr>b_id = 7, b_status = ''ACCEPTED'', b_attendees = attendees,
      b_startTime = 1893492000000000, b_endTime = 1893493800000000,
      b_description = None, b_videoCallUrl = None\<rparr>"

definition demo_reason :: "nat \<Rightarrow> string" where
  "demo_reason status =
     (if status = 200 then ''OK''
      else if status = 429 then ''Too Many Requests''
      else ''Internal Server Error'')"

definition url_text :: "url \<Rightarrow> string" where
  "url_text u =
     (case u of
        BookingsUrl \<Rightarrow> ''https://api.cal.com/v1/bookings''
      | BookingUrl i \<Rightarrow> ''https://api.cal.com/v1/bookings/'' @ str_int i
      | BookingCancelUrl i \<Rightarrow> ''https://api.cal.com/v1/bookings/'' @ str_int i @ ''/cancel''
      | BookingReferencesUrl \<Rightarrow> ''https://api.cal.com/v1/booking-references''
      | BookingReferenceUrl i \<Rightarrow> ''https://api.cal.com/v1/booking-references/'' @ str_int i)"

definition demo_service ::
  "attendee list \<Rightarrow> (http_request \<Rightarrow> nat) \<Rightarrow> event list \<Rightarrow> http_request \<Rightarrow> net_outcome" where
  "demo_service attendees status h rq =
     Resp \<lparr>status_code = status rq, reason_phrase = demo_reason (status rq),
           response_url = url_text (rq_url rq) @ ''?apiKey=KEY'',
           json =
             (case rq_url rq of
                BookingReferencesUrl \<Rightarrow>
                  empty_json\<lparr>j_booking_references :=
                    Some [\<lparr>ref_id = 3, ref_bookingId = 7, ref_deleted = None\<rparr>]\<rparr>
              | BookingUrl i \<Rightarrow>
                  if i = 7 then empty_json\<lparr>j_booking := Some (demo_booking attendees)\<rparr>
                  else empty_json
              | _ \<Rightarrow> empty_json)\<rparr>"

definition demo_strptime :: "string \<Rightarrow> naive option" where
  "demo_strptime s =
     (if s = ''2030-01-01 10:00'' then Some 31558200
      else if s = ''2030-01-01 19:00'' then Some 31558740
      else if s = ''2030-01-02 10:00'' then Some 31559640
      else if s = ''9999-12-31 23:59'' then Some 4223371679
      else None)"

definition demo_offset :: "string \<Rightarrow> int" where
  "demo_offset tz = (if tz = ''Asia/Tokyo'' then 540 else 0)"

text \<open>
  The \<^verbatim>\<open>localize\<close> of a \<^verbatim>\<open>pytz\<close> zone with transitions looks up the days before and
  after the wall clock (\<^verbatim>\<open>dt + timedelta(days=1)\<close>), which raises \<^verbatim>\<open>OverflowError\<close>
  within a day of the ends of the range.
\<close>

definition demo_localize :: "string \<Rightarrow> naive \<Rightarrow> py_exc + aware" where
  "demo_localize tz wall =
     (if datetime_min \<le> (wall - 1440) * 60000000 \<and> (wall + 1440) * 60000000 \<le> datetime_max then
        Inr \<lparr>instant_of = (wall - demo_offset tz) * 60000000,
             utcoffset = demo_offset tz * 60000000\<rparr>
      else Inl OverflowError)"

definition demo_strftime :: "string \<Rightarrow> string option \<Rightarrow> instant \<Rightarrow> string" where
  "demo_strftime fmt tz t =
     (let wall = t div 60000000 + (case tz of None \<Rightarrow> 0 | Some z \<Rightarrow> demo_offset z)
      in if fmt = ''%Y-%m-%dT%H:%M:00'' then
           (if wall = 31558200 then ''2030-01-01T10:00:00''
            else if wall = 31558740 then ''2030-01-01T19:00:00''
            else if wall = 31559640 then ''2030-01-02T10:00:00''
            else ''another minute'')
         else ''another format'')"

definition demo_interpreter_text :: "py_exc \<Rightarrow> string" where
  "demo_interpreter_text e =
     (case e of
        OverflowError \<Rightarrow> ''date value out of range''
      | IndexError \<Rightarrow> ''list index out of range''
      | _ \<Rightarrow> ''another message'')"

definition demo_env :: "(event list \<Rightarrow> http_request \<Rightarrow> net_outcome) \<Rightarrow> instant \<Rightarrow> env" where
  "demo_env service clock =
     \<lparr>net = service, uniform01 = (\<lambda>h. 1 / 2), now = (\<lambda>h. clock),
      get_localzone = Inr ''Europe/London'', getlocale = Inr (Some ''en_GB''),
      strptime = demo_strptime, localize = demo_localize, strftime = demo_strftime,
      format_wall = (\<lambda>fmt w. ''another text''),
      set_iter = remdups, str_json = (\<lambda>j. ''{}''), str_summary = (\<lambda>j. ''{}''),
      dumps_bookings = (\<lambda>bs. ''{}''), interpreter_text = demo_interpreter_text\<rparr>"


subsection \<open>What a computation adds to the history, and what it raises\<close>

text \<open>
  \<open>each_event ok pre evs\<close>: every event of \<open>evs\<close> satisfies \<open>ok\<close>, which may look at the
  history before the event (\<open>pre\<close> extended by the events before it).
\<close>

fun each_event :: "(event list \<Rightarrow> event \<Rightarrow> bool) \<Rightarrow> event list \<Rightarrow> event list \<Rightarrow> bool" where
  "each_event ok pre [] = True"
| "each_event ok pre (e # evs) = (ok pre e \<and> each_event ok (pre @ [e]) evs)"

text \<open>A computation only extends the history, by events that satisfy \<open>ok\<close>.\<close>

definition adds_only :: "(event list \<Rightarrow> event \<Rightarrow> bool) \<Rightarrow> 'a io \<Rightarrow> bool" where
  "adds_only ok m = (\<forall>h. \<exists>evs. snd (m h) = h @ evs \<and> each_event ok h evs)"

text \<open>A computation returns only values in \<open>P\<close> and raises only exceptions in \<open>C\<close>.\<close>

definition returns :: "('a \<Rightarrow> bool) \<Rightarrow> (py_exc \<Rightarrow> bool) \<Rightarrow> 'a io \<Rightarrow> bool" where
  "returns P C m = (\<forall>h. case fst (m h) of Inl e \<Rightarrow> C e | Inr x \<Rightarrow> P x)"

definition is_get :: "event list \<Rightarrow> event \<Rightarrow> bool" where
  "is_get pre e = (case e of Sent rq \<Rightarrow> rq_method rq = GET | Slept t \<Rightarrow> True)"


text \<open>A booking the enumeration keeps for \<open>user_email\<close>.\<close>

definition kept_for :: "string \<Rightarrow> booking \<Rightarrow> bool" where
  "kept_for user_email booking_data =
     (b_status booking_data \<noteq> ''CANCELLED''
      \<and> list_ex (\<lambda>attendee. a_email attendee = user_email) (b_attendees booking_data))"

definition never :: "py_exc \<Rightarrow> bool" where
  "never e = False"

definition anything :: "'a \<Rightarrow> bool" where
  "anything x = True"

text \<open>Two attendees for the worked examples.\<close>

definition ann :: attendee where
  "ann = \<lparr>a_email = ''ann@example.org'', a_timeZone = ''Europe/London'', a_locale = ''en''\<rparr>"

definition host :: attendee where
  "host = \<lparr>a_email = ''host@example.org'', a_timeZone = ''Asia/Tokyo'', a_locale = ''ja''\<rparr>"

text \<open>The service answers the fetch of booking 7 with status 500, every other call with 200.\<close>

definition detail_fails :: "http_request \<Rightarrow> nat" where
  "detail_fails rq = (if rq_url rq = BookingUrl 7 then 500 else 200)"


text \<open>The service answers the deletion of reference 3 with status 500, every other call with 200.\<close>

definition reference_delete_fails :: "http_request \<Rightarrow> nat" where
  "reference_delete_fails rq = (if rq_url rq = BookingReferenceUrl 3 then 500 else 200)"

text \<open>
  The test \<^verbatim>\<open>_find_booking\<close> applies to a booking: its start, moved to the timezone of its
  first attendee and formatted to the minute, is the target text.
\<close>

definition matches_target :: "env \<Rightarrow> string \<Rightarrow> booking \<Rightarrow> bool" where
  "matches_target env target_datetime booking_data =
     (case b_attendees booking_data of
        [] \<Rightarrow> False
      | first_attendee # others \<Rightarrow>
          strftime env ''%Y-%m-%dT%H:%M:00'' (Some (a_timeZone first_attendee))
            (b_startTime booking_data) = target_datetime)"

text \<open>The service answers the first four requests of a run with status 429, the rest with 200.\<close>

definition four_429_then_200 :: "event list \<Rightarrow> http_request \<Rightarrow> net_outcome" where
  "four_429_then_200 h rq =
     (let status = (if length (requests_of h) < 4 then 429 else 200)
      in Resp \<lparr>status_code = status, reason_phrase = demo_reason status,
               response_url = url_text (rq_url rq) @ ''?apiKey=KEY'', json = empty_json\<rparr>)"

section \<open>The duration normalizer\<close>

lemma py_min_from_mem: "py_min_from key best xs \<in> insert best (set xs)"
  by (induction xs arbitrary: best) auto

lemma py_min_from_le_best: "key (py_min_from key best xs) \<le> key best"
proof (induction xs arbitrary: best)
  case Nil
  show ?case by simp
next
  case (Cons x xs)
  have "key (py_min_from key (if key x < key best then x else best) xs)
          \<le> key (if key x < key best then x else best)"
    by (rule Cons.IH)
  also have "\<dots> \<le> key best" by simp
  finally show ?case by simp
qed

lemma py_min_from_least:
  "y \<in> set xs \<Longrightarrow> key (py_min_from key best xs) \<le> key y"
proof (induction xs arbitrary: best)
  case Nil
  then show ?case by simp
next
  case (Cons x xs)
  let ?b = "if key x < key best then x else best"
  show ?case
  proof (cases "y = x")
    case True
    have "key (py_min_from key ?b xs) \<le> key ?b" by (rule py_min_from_le_best)
    also have "\<dots> \<le> key x" by simp
    finally show ?thesis using True by simp
  next
    case False
    with Cons.prems have "y \<in> set xs" by simp
    then show ?thesis using Cons.IH [of ?b] by simp
  qed
qed

text \<open>
  The first minimum: when the candidates are scanned in ascending order, an element with
  the same key as the result is not smaller than the result.
\<close>

lemma py_min_from_first:
  "sorted (best # xs) \<Longrightarrow> m \<in> insert best (set xs) \<Longrightarrow>
   key m = key (py_min_from key best xs) \<Longrightarrow> py_min_from key best xs \<le> (m::int)"
proof (induction xs arbitrary: best m)
  case Nil
  then show ?case by simp
next
  case (Cons x xs)
  let ?b = "if key x < key best then x else best"
  let ?v = "py_min_from key ?b xs"
  have v: "py_min_from key best (x # xs) = ?v" by simp
  have srt: "sorted (?b # xs)" using Cons.prems(1) by auto
  have v_le_b: "key ?v \<le> key ?b" by (rule py_min_from_le_best)
  have km: "key m = key ?v" using Cons.prems(3) by simp
  consider (rest) "m \<in> insert ?b (set xs)" | (dropped) "m \<notin> insert ?b (set xs)" by blast
  then show ?case
  proof cases
    case rest
    then have "?v \<le> m" using Cons.IH [OF srt, of m] km by blast
    then show ?thesis by simp
  next
    case dropped
    show ?thesis
    proof (cases "key x < key best")
      case True
      with dropped Cons.prems(2) have "m = best" by auto
      with km v_le_b True show ?thesis by simp
    next
      case False
      with dropped Cons.prems(2) have mx: "m = x" by auto
      from False v_le_b km mx have "key best = key ?v" by simp
      moreover have "best \<in> insert ?b (set xs)" using False by simp
      ultimately have "?v \<le> best" using Cons.IH [OF srt, of best] by simp
      moreover have "best \<le> x" using Cons.prems(1) by simp
      ultimately show ?thesis using mx by simp
    qed
  qed
qed

lemma set_valid_durations:
  "set valid_durations =
     {5, 10, 15, 20, 25, 30, 45, 50, 60, 75, 80, 90, 120, 150, 180, 240, 300, 360, 420, 480}"
  by (simp add: valid_durations_def)

lemma sorted_valid_durations: "sorted valid_durations"
  by (simp add: valid_durations_def)

lemma find_closest_duration_Some:
  "\<exists>v. find_closest_duration d = Some v \<and> v \<in> set valid_durations
     \<and> (\<forall>m\<in>set valid_durations. \<bar>v - d\<bar> \<le> \<bar>m - d\<bar>)
     \<and> (\<forall>m\<in>set valid_durations. \<bar>m - d\<bar> = \<bar>v - d\<bar> \<longrightarrow> v \<le> m)"
proof -
  define key where "key = (\<lambda>x::int. \<bar>x - d\<bar>)"
  obtain b rest where vd: "valid_durations = b # rest"
    by (simp add: valid_durations_def)
  let ?v = "py_min_from key b rest"
  have res: "find_closest_duration d = Some ?v"
    by (simp add: find_closest_duration_def py_min_def vd key_def)
  have mem: "?v \<in> set valid_durations"
    using py_min_from_mem [of key b rest] by (simp add: vd)
  have least: "key ?v \<le> key m" if "m \<in> set valid_durations" for m
  proof (cases "m = b")
    case True
    then show ?thesis by (simp add: py_min_from_le_best)
  next
    case False
    with that have "m \<in> set rest" by (simp add: vd)
    then show ?thesis by (rule py_min_from_least)
  qed
  have first: "?v \<le> m" if "m \<in> set valid_durations" "key m = key ?v" for m
    using py_min_from_first [of b rest m key] sorted_valid_durations that by (simp add: vd)
  show ?thesis
    using res mem least first by (auto simp: key_def)
qed

text \<open>
  C8. For every positive duration \<open>d\<close> the normalizer returns (it has no failure mode) a
  member of the fixed set of twenty allowed durations; no member of the set is strictly
  closer to \<open>d\<close> in absolute difference; and a member that is as close as the result is
  not smaller than it, so of two equidistant members the smaller one is returned.
\<close>

theorem find_closest_duration_nearest:
  "0 < d \<Longrightarrow>
   \<exists>v. find_closest_duration d = Some v
     \<and> v \<in> {5, 10, 15, 20, 25, 30, 45, 50, 60, 75, 80, 90, 120, 150, 180, 240, 300, 360, 420, 480}
     \<and> (\<forall>m\<in>{5, 10, 15, 20, 25, 30, 45, 50, 60, 75, 80, 90, 120, 150, 180, 240, 300, 360, 420, 480}.
           \<not> \<bar>m - d\<bar> < \<bar>v - d\<bar>)
     \<and> (\<forall>m\<in>{5, 10, 15, 20, 25, 30, 45, 50, 60, 75, 80, 90, 120, 150, 180, 240, 300, 360, 420, 480}.
           \<bar>m - d\<bar> = \<bar>v - d\<bar> \<longrightarrow> v \<le> m)"
proof -
  obtain v where v: "find_closest_duration d = Some v" "v \<in> set valid_durations"
      "\<forall>m\<in>set valid_durations. \<bar>v - d\<bar> \<le> \<bar>m - d\<bar>"
      "\<forall>m\<in>set valid_durations. \<bar>m - d\<bar> = \<bar>v - d\<bar> \<longrightarrow> v \<le> m"
    using find_closest_duration_Some [of d] by blast
  have "\<forall>m\<in>set valid_durations. \<not> \<bar>m - d\<bar> < \<bar>v - d\<bar>"
    using v(3) by (simp add: not_less)
  with v(1,2,4) show ?thesis
    unfolding set_valid_durations by blast
qed

theorem find_closest_duration_nearest_witness:
  "(0::int) < 55 \<and> find_closest_duration 55 = Some 50 \<and> \<bar>60 - 55\<bar> = \<bar>50 - (55::int)\<bar>"
proof -
  have pos: "(0::int) < 55" by simp
  have run: "find_closest_duration 55 = Some 50"
    by (simp add: find_closest_duration_def py_min_def valid_durations_def)
  obtain v where v: "find_closest_duration 55 = Some v"
      "\<forall>m\<in>{5, 10, 15, 20, 25, 30, 45, 50, 60, 75, 80, 90, 120, 150, 180, 240, 300, 360, 420, 480}.
         \<bar>m - 55\<bar> = \<bar>v - 55\<bar> \<longrightarrow> v \<le> m"
    using find_closest_duration_nearest [OF pos] by blast
  from v(1) run have "v = 50" by simp
  with v(2) have "(50::int) \<le> 60" by simp
  with pos run show ?thesis by simp
qed

section \<open>The retrying transport\<close>

lemma retry_loop_step:
  "retry_loop env func mx (a # rest) d h =
     (case func h of
        (Inr v, h') \<Rightarrow> (Inr (Some v), h')
      | (Inl e, h') \<Rightarrow>
          if is_429 e \<and> a \<noteq> mx - 1
          then retry_loop env func mx rest (d * 2) (h' @ [Slept (real d + uniform01 env h')])
          else (Inl e, h'))"
  by (simp add: try_except_def bind_def ret_def raise_def is_429_def is_HTTPError_def
      random_uniform01_def time_sleep_def Let_def
      split: prod.splits sum.splits py_exc.splits)

lemma retry_loop_run:
  fixes func :: "'a io"
  assumes "i + n = k" "k < 5"
    and "\<forall>j. i \<le> j \<and> j < k \<longrightarrow> rate_limited (fst (func (attempt_history env func j h)))"
    and "k = 4 \<or> \<not> rate_limited (fst (func (attempt_history env func k h)))"
  shows "retry_loop env func 5 [i..<5] (2 ^ i) (attempt_history env func i h)
          = (returned (fst (func (attempt_history env func k h))),
             snd (func (attempt_history env func k h)))"
  using assms
proof (induction n arbitrary: i)
  case 0
  then have ik: "i = k" by simp
  have up: "[k..<5] = k # [Suc k..<5]" using \<open>k < 5\<close> by (simp add: upt_conv_Cons)
  show ?case
    using 0(4) unfolding ik up
    by (subst retry_loop_step) (auto simp: rate_limited_def returned_def split: prod.splits sum.splits)
next
  case (Suc n)
  then have lt: "i < k" and i5: "i < 5" by simp_all
  have up: "[i..<5] = i # [Suc i..<5]" using i5 by (simp add: upt_conv_Cons)
  have rl: "rate_limited (fst (func (attempt_history env func i h)))"
    using Suc.prems(3) lt by simp
  have ne: "i \<noteq> 5 - 1" using lt \<open>k < 5\<close> by simp
  obtain e h' where f: "func (attempt_history env func i h) = (Inl e, h')"
    using rl by (cases "func (attempt_history env func i h)") (auto simp: rate_limited_def split: sum.splits)
  have IH: "retry_loop env func 5 [Suc i..<5] (2 ^ Suc i) (attempt_history env func (Suc i) h)
          = (returned (fst (func (attempt_history env func k h))),
             snd (func (attempt_history env func k h)))"
    using Suc.IH [of "Suc i"] Suc.prems by simp
  show ?case
    unfolding up using rl ne IH
    by (subst retry_loop_step) (simp add: f Let_def rate_limited_def mult.commute)
qed

lemma retry_with_backoff_run:
  fixes func :: "'a io"
  assumes "k < 5"
    and "\<forall>j<k. rate_limited (fst (func (attempt_history env func j h)))"
    and "k = 4 \<or> \<not> rate_limited (fst (func (attempt_history env func k h)))"
  shows "retry_with_backoff env func h
          = (returned (fst (func (attempt_history env func k h))),
             snd (func (attempt_history env func k h)))"
  using retry_loop_run [of 0 k k func env h] assms
  by (simp add: retry_with_backoff_def)

lemma retry_run_exists:
  fixes func :: "'a io"
  shows "\<exists>k<5. (\<forall>j<k. rate_limited (fst (func (attempt_history env func j h))))
          \<and> (k = 4 \<or> \<not> rate_limited (fst (func (attempt_history env func k h))))"
proof (cases "\<exists>k<4. \<not> rate_limited (fst (func (attempt_history env func k h)))")
  case True
  define k where "k = (LEAST k. \<not> rate_limited (fst (func (attempt_history env func k h))))"
  from True obtain k0 where k0: "k0 < 4" "\<not> rate_limited (fst (func (attempt_history env func k0 h)))"
    by blast
  have a: "\<not> rate_limited (fst (func (attempt_history env func k h)))"
    unfolding k_def using k0(2) by (rule LeastI)
  have b: "k \<le> k0" unfolding k_def using k0(2) by (rule Least_le)
  have c: "rate_limited (fst (func (attempt_history env func j h)))" if "j < k" for j
    using not_less_Least that unfolding k_def by blast
  show ?thesis using a b c k0(1) by (intro exI [of _ k]) auto
next
  case False
  then show ?thesis by (intro exI [of _ 4]) auto
qed

lemma make_api_request_body_run: "make_api_request_body env rq h = (attempt_outcome (net env h rq), h @ [Sent rq])"
  by (simp add: make_api_request_body_def bind_def requests_request_def raise_for_status_def ret_def raise_def
      attempt_outcome_def split: net_outcome.splits)

lemma rate_limited_attempt: "rate_limited (attempt_outcome a) = answered_429 a"
  by (auto simp: rate_limited_def attempt_outcome_def answered_429_def is_429_def
      split: net_outcome.splits)

lemma attempt_history_make_api_request_body:
  "attempt_history env (make_api_request_body env rq) k h = transport_history env rq k h"
  by (induction k) (simp_all add: make_api_request_body_run Let_def)

lemma sleeps_of_append: "sleeps_of (xs @ ys) = sleeps_of xs @ sleeps_of ys"
  by (induction xs rule: sleeps_of.induct) simp_all

lemma requests_of_append: "requests_of (xs @ ys) = requests_of xs @ requests_of ys"
  by (induction xs rule: requests_of.induct) simp_all

lemma transport_history_prefix:
  "\<exists>evs. transport_history env rq k h = h @ evs
     \<and> requests_of evs = replicate k rq
     \<and> sleeps_of evs = map (\<lambda>j. 1 * 2 ^ j + uniform01 env (transport_history env rq j h @ [Sent rq])) [0..<k]"
proof (induction k)
  case 0
  show ?case by simp
next
  case (Suc k)
  then obtain evs where evs: "transport_history env rq k h = h @ evs"
      "requests_of evs = replicate k rq"
      "sleeps_of evs = map (\<lambda>j. 1 * 2 ^ j + uniform01 env (transport_history env rq j h @ [Sent rq])) [0..<k]"
    by blast
  let ?w = "1 * 2 ^ k + uniform01 env (transport_history env rq k h @ [Sent rq])"
  have "transport_history env rq (Suc k) h = h @ (evs @ [Sent rq, Slept ?w])"
    by (simp add: Let_def evs(1))
  moreover have "requests_of (evs @ [Sent rq, Slept ?w]) = replicate (Suc k) rq"
    by (simp add: requests_of_append evs(2) replicate_append_same)
  moreover have "sleeps_of (evs @ [Sent rq, Slept ?w])
      = map (\<lambda>j. 1 * 2 ^ j + uniform01 env (transport_history env rq j h @ [Sent rq])) [0..<Suc k]"
    by (simp add: sleeps_of_append evs(3))
  ultimately show ?case by blast
qed

lemma backoff_sorted:
  fixes u :: "nat \<Rightarrow> real"
  assumes "\<forall>j. 0 \<le> u j \<and> u j < 1"
  shows "sorted (map (\<lambda>j. 1 * 2 ^ j + u j) [0..<k])"
proof -
  have step: "1 * 2 ^ i + u i \<le> 1 * 2 ^ j + u j" if "i \<le> j" for i j
  proof (cases "i = j")
    case True
    then show ?thesis by simp
  next
    case False
    with that have "Suc i \<le> j" by simp
    then have "(2::real) ^ Suc i \<le> 2 ^ j" by (intro power_increasing) simp_all
    then have a: "2 * (2::real) ^ i \<le> 2 ^ j" by simp
    have b: "1 \<le> (2::real) ^ i" by simp
    have c: "u i < 1" "0 \<le> u j" using assms by simp_all
    show ?thesis using a b c by linarith
  qed
  show ?thesis
    using step by (simp add: sorted_iff_nth_mono del: upt_Suc)
qed

lemma make_api_request_shape:
  "\<exists>k<5.
     (\<forall>j<k. answered_429 (net env (transport_history env rq j h) rq))
   \<and> (k = 4 \<or> \<not> answered_429 (net env (transport_history env rq k h) rq))
   \<and> make_api_request env rq h
        = (returned (attempt_outcome (net env (transport_history env rq k h) rq)),
           transport_history env rq k h @ [Sent rq])
   \<and> (\<exists>evs. transport_history env rq k h @ [Sent rq] = h @ evs
          \<and> requests_of evs = replicate (k + 1) rq
          \<and> sleeps_of evs
              = map (\<lambda>j. 1 * 2 ^ j + uniform01 env (transport_history env rq j h @ [Sent rq])) [0..<k]
          \<and> ((\<forall>h'. 0 \<le> uniform01 env h' \<and> uniform01 env h' < 1) \<longrightarrow> sorted (sleeps_of evs)))"
proof -
  let ?func = "make_api_request_body env rq"
  obtain k where k: "k < 5"
      "\<forall>j<k. rate_limited (fst (?func (attempt_history env ?func j h)))"
      "k = 4 \<or> \<not> rate_limited (fst (?func (attempt_history env ?func k h)))"
    using retry_run_exists [of ?func env h] by blast
  have run: "make_api_request env rq h
        = (returned (attempt_outcome (net env (transport_history env rq k h) rq)),
           transport_history env rq k h @ [Sent rq])"
  proof -
    have "make_api_request env rq = retry_with_backoff env ?func"
      by (simp add: make_api_request_def)
    moreover have "fst (?func H) = attempt_outcome (net env H rq)"
      and "snd (?func H) = H @ [Sent rq]" for H
      by (simp_all add: make_api_request_body_run)
    ultimately show ?thesis
      using retry_with_backoff_run [OF k] by (simp only: attempt_history_make_api_request_body)
  qed
  have k2: "\<forall>j<k. answered_429 (net env (transport_history env rq j h) rq)"
    using k(2) by (simp add: attempt_history_make_api_request_body make_api_request_body_run rate_limited_attempt)
  have k3: "k = 4 \<or> \<not> answered_429 (net env (transport_history env rq k h) rq)"
    using k(3) by (simp add: attempt_history_make_api_request_body make_api_request_body_run rate_limited_attempt)
  obtain evs where evs: "transport_history env rq k h = h @ evs"
      "requests_of evs = replicate k rq"
      "sleeps_of evs = map (\<lambda>j. 1 * 2 ^ j + uniform01 env (transport_history env rq j h @ [Sent rq])) [0..<k]"
    using transport_history_prefix [of env rq k h] by blast
  let ?evs = "evs @ [Sent rq]"
  have e1: "transport_history env rq k h @ [Sent rq] = h @ ?evs" by (simp add: evs(1))
  have e2: "requests_of ?evs = replicate (k + 1) rq"
    by (simp add: requests_of_append evs(2) replicate_append_same)
  have e3: "sleeps_of ?evs
      = map (\<lambda>j. 1 * 2 ^ j + uniform01 env (transport_history env rq j h @ [Sent rq])) [0..<k]"
    by (simp add: sleeps_of_append evs(3))
  have e4: "sorted (sleeps_of ?evs)" if "\<forall>h'. 0 \<le> uniform01 env h' \<and> uniform01 env h' < 1"
    unfolding e3
    using backoff_sorted [of "\<lambda>j. uniform01 env (transport_history env rq j h @ [Sent rq])" k] that
    by simp
  show ?thesis
    using k(1) k2 k3 run e1 e2 e3 e4 by blast
qed

text \<open>
  C4. Every run of the retrying transport has this shape, for some \<open>k < 5\<close>: the first
  \<open>k\<close> attempts were answered with status 429, and attempt \<open>k + 1\<close> either was not, or
  is the fifth. The run issues the request \<open>k + 1\<close> times (at most five, never a sixth),
  ends with the outcome of the last attempt (the rate-limit error itself after a fifth
  429; any other error response or transport failure as soon as it occurs; the response
  otherwise), and sleeps once before each attempt after the first, for
  \<open>1 * 2 ^ j\<close> seconds (\<open>j = 0\<close> before the second attempt) plus the random draw. When
  every draw lies in \<open>[0, 1)\<close> the sleeps are non-decreasing.
\<close>

theorem make_api_request_backoff:
  "\<exists>k<5.
     (\<forall>j<k. answered_429 (net env (transport_history env rq j h) rq))
   \<and> (k = 4 \<or> \<not> answered_429 (net env (transport_history env rq k h) rq))
   \<and> make_api_request env rq h
        = (returned (attempt_outcome (net env (transport_history env rq k h) rq)),
           transport_history env rq k h @ [Sent rq])
   \<and> (\<exists>evs. transport_history env rq k h @ [Sent rq] = h @ evs
          \<and> requests_of evs = replicate (k + 1) rq
          \<and> sleeps_of evs
              = map (\<lambda>j. 1 * 2 ^ j + uniform01 env (transport_history env rq j h @ [Sent rq])) [0..<k]
          \<and> ((\<forall>h'. 0 \<le> uniform01 env h' \<and> uniform01 env h' < 1) \<longrightarrow> sorted (sleeps_of evs)))"
  by (rule make_api_request_shape)

theorem make_api_request_backoff_witness:
  "make_api_request (demo_env (demo_service [] (\<lambda>rq. 429)) 0) (get_request BookingReferencesUrl) []
     = (Inl (HTTPError \<lparr>status_code = 429, reason_phrase = ''Too Many Requests'',
                         response_url = ''https://api.cal.com/v1/booking-references?apiKey=KEY'',
                         json = empty_json\<lparr>j_booking_references :=
                           Some [\<lparr>ref_id = 3, ref_bookingId = 7, ref_deleted = None\<rparr>]\<rparr>\<rparr>),
        [Sent (get_request BookingReferencesUrl), Slept (3 / 2),
         Sent (get_request BookingReferencesUrl), Slept (5 / 2),
         Sent (get_request BookingReferencesUrl), Slept (9 / 2),
         Sent (get_request BookingReferencesUrl), Slept (17 / 2),
         Sent (get_request BookingReferencesUrl)])"
proof -
  let ?env = "demo_env (demo_service [] (\<lambda>rq. 429)) 0"
  let ?rq = "get_request BookingReferencesUrl"
  have always: "answered_429 (net ?env h ?rq)" for h
    by (simp add: answered_429_def demo_env_def demo_service_def)
  obtain k where k: "k < 5"
      "k = 4 \<or> \<not> answered_429 (net ?env (transport_history ?env ?rq k []) ?rq)"
      "make_api_request ?env ?rq []
        = (returned (attempt_outcome (net ?env (transport_history ?env ?rq k []) ?rq)),
           transport_history ?env ?rq k [] @ [Sent ?rq])"
    using make_api_request_backoff [of ?env ?rq "[]"] by blast
  from k(2) always have k4: "k = 4" by blast
  have hist: "transport_history ?env ?rq 4 []
      = [Sent ?rq, Slept (3 / 2), Sent ?rq, Slept (5 / 2), Sent ?rq, Slept (9 / 2),
         Sent ?rq, Slept (17 / 2)]"
    by (simp add: eval_nat_numeral Let_def demo_env_def)
  show ?thesis
    unfolding k(3) k4 hist
    by (simp add: returned_def attempt_outcome_def demo_env_def demo_service_def get_request_def
        demo_reason_def url_text_def)
qed

section \<open>Rules for histories and exceptions\<close>

text \<open>The decimal texts used in the examples.\<close>

lemma str_int_3: "str_int 3 = ''3''"
  by code_simp

lemma str_int_7: "str_int 7 = ''7''"
  by code_simp

lemma str_nat_500: "str_nat 500 = ''500''"
  by code_simp

lemmas demo_texts = str_int_3 str_int_7 str_nat_500

lemma each_event_append:
  "each_event ok pre (xs @ ys) = (each_event ok pre xs \<and> each_event ok (pre @ xs) ys)"
  by (induction xs arbitrary: pre) simp_all

lemma adds_onlyI:
  "(\<And>h. \<exists>evs. snd (m h) = h @ evs \<and> each_event ok h evs) \<Longrightarrow> adds_only ok m"
  by (simp add: adds_only_def)

lemma adds_onlyD:
  "adds_only ok m \<Longrightarrow> \<exists>evs. snd (m h) = h @ evs \<and> each_event ok h evs"
  by (simp add: adds_only_def)

lemma adds_only_ret: "adds_only ok (ret x)"
  by (simp add: adds_only_def ret_def)

lemma adds_only_raise: "adds_only ok (raise e)"
  by (simp add: adds_only_def raise_def)


lemma adds_only_now: "adds_only ok (datetime_now env)"
  by (simp add: adds_only_def datetime_now_def)

lemma adds_only_uniform: "adds_only ok (random_uniform01 env)"
  by (simp add: adds_only_def random_uniform01_def)

lemma adds_only_sleep: "(\<And>h. ok h (Slept t)) \<Longrightarrow> adds_only ok (time_sleep t)"
  by (simp add: adds_only_def time_sleep_def)

lemma adds_only_request: "(\<And>h. ok h (Sent rq)) \<Longrightarrow> adds_only ok (requests_request env rq)"
  by (simp add: adds_only_def requests_request_def split: net_outcome.splits)

lemma adds_only_bind:
  assumes "adds_only ok m" and "\<And>x. adds_only ok (k x)"
  shows "adds_only ok (bind m k)"
proof (rule adds_onlyI)
  fix h
  obtain evs where evs: "snd (m h) = h @ evs" "each_event ok h evs"
    using adds_onlyD [OF assms(1)] by blast
  show "\<exists>evs. snd (bind m k h) = h @ evs \<and> each_event ok h evs"
  proof (cases "m h")
    case (Pair r h')
    with evs have h': "h' = h @ evs" by simp
    show ?thesis
    proof (cases r)
      case (Inl e)
      with Pair evs h' show ?thesis by (auto simp: bind_def)
    next
      case (Inr x)
      obtain evs2 where evs2: "snd (k x h') = h' @ evs2" "each_event ok h' evs2"
        using adds_onlyD [OF assms(2)] by blast
      have "snd (bind m k h) = h @ (evs @ evs2)"
        using Pair Inr evs2(1) h' by (simp add: bind_def)
      moreover have "each_event ok h (evs @ evs2)"
        using evs(2) evs2(2) h' by (simp add: each_event_append)
      ultimately show ?thesis by blast
    qed
  qed
qed

lemma adds_only_try:
  assumes "adds_only ok m" and "\<And>e. adds_only ok (handler e)"
  shows "adds_only ok (try_except m catches handler)"
proof (rule adds_onlyI)
  fix h
  obtain evs where evs: "snd (m h) = h @ evs" "each_event ok h evs"
    using adds_onlyD [OF assms(1)] by blast
  show "\<exists>evs. snd (try_except m catches handler h) = h @ evs \<and> each_event ok h evs"
  proof (cases "m h")
    case (Pair r h')
    with evs have h': "h' = h @ evs" by simp
    show ?thesis
    proof (cases r)
      case (Inr x)
      with Pair evs h' show ?thesis by (auto simp: try_except_def)
    next
      case (Inl e)
      show ?thesis
      proof (cases "catches e")
        case False
        with Inl Pair evs h' show ?thesis by (auto simp: try_except_def)
      next
        case True
        obtain evs2 where evs2: "snd (handler e h') = h' @ evs2" "each_event ok h' evs2"
          using adds_onlyD [OF assms(2)] by blast
        have "snd (try_except m catches handler h) = h @ (evs @ evs2)"
          using Pair Inl True evs2(1) h' by (simp add: try_except_def)
        moreover have "each_event ok h (evs @ evs2)"
          using evs(2) evs2(2) h' by (simp add: each_event_append)
        ultimately show ?thesis by blast
      qed
    qed
  qed
qed

lemma adds_only_retry_loop:
  assumes "adds_only ok func" and "\<And>h t. ok h (Slept t)"
  shows "adds_only ok (retry_loop env func mx attempts d)"
proof (induction attempts arbitrary: d)
  case Nil
  show ?case by (simp add: adds_only_ret)
next
  case (Cons a attempts)
  show ?case
    unfolding retry_loop.simps
    by (intro adds_only_try adds_only_bind assms(1) adds_only_ret)
       (auto simp: Let_def intro!: adds_only_raise adds_only_bind adds_only_uniform
          adds_only_sleep assms(2) Cons.IH split: py_exc.splits)
qed

lemma adds_only_retry:
  "adds_only ok func \<Longrightarrow> (\<And>h t. ok h (Slept t)) \<Longrightarrow> adds_only ok (retry_with_backoff env func)"
  by (simp add: retry_with_backoff_def adds_only_retry_loop)

lemma adds_only_make_api_request:
  assumes "\<And>h. ok h (Sent rq)" and "\<And>h t. ok h (Slept t)"
  shows "adds_only ok (make_api_request env rq)"
  unfolding make_api_request_def make_api_request_body_def
  by (intro adds_only_retry adds_only_bind adds_only_request assms)
     (auto simp: raise_for_status_def intro: adds_only_raise adds_only_ret assms)

lemma adds_only_response_json: "adds_only ok (response_json r)"
  by (cases r) (simp_all add: response_json_def adds_only_raise adds_only_ret)

lemma adds_only_response_status_code: "adds_only ok (response_status_code r)"
  by (cases r) (simp_all add: response_status_code_def adds_only_raise adds_only_ret)

subsection \<open>Returned values and raised exceptions\<close>

lemma returnsI:
  "(\<And>h. case fst (m h) of Inl e \<Rightarrow> C e | Inr x \<Rightarrow> P x) \<Longrightarrow> returns P C m"
  by (simp add: returns_def)

lemma returns_Inl: "returns P C m \<Longrightarrow> m h = (Inl e, h') \<Longrightarrow> C e"
  by (auto simp: returns_def dest!: spec [of _ h])

lemma returns_Inr: "returns P C m \<Longrightarrow> m h = (Inr x, h') \<Longrightarrow> P x"
  by (auto simp: returns_def dest!: spec [of _ h])

lemma returns_ret: "P x \<Longrightarrow> returns P C (ret x)"
  by (simp add: returns_def ret_def)

lemma returns_raise: "C e \<Longrightarrow> returns P C (raise e)"
  by (simp add: returns_def raise_def)

lemma returns_weaken:
  "returns P C m \<Longrightarrow> (\<And>x. P x \<Longrightarrow> Q x) \<Longrightarrow> (\<And>e. C e \<Longrightarrow> D e) \<Longrightarrow> returns Q D m"
  by (auto simp: returns_def split: sum.splits)

lemma returns_bind:
  assumes "returns P C m" and "\<And>x. P x \<Longrightarrow> returns Q C (k x)"
  shows "returns Q C (bind m k)"
proof (rule returnsI)
  fix h
  show "case fst (bind m k h) of Inl e \<Rightarrow> C e | Inr x \<Rightarrow> Q x"
  proof (cases "m h")
    case (Pair r h')
    show ?thesis
    proof (cases r)
      case (Inl e)
      with Pair returns_Inl [OF assms(1)] show ?thesis by (simp add: bind_def)
    next
      case (Inr x)
      with Pair have "P x" using returns_Inr [OF assms(1)] by simp
      then have "returns Q C (k x)" by (rule assms(2))
      then have "case fst (k x h') of Inl e \<Rightarrow> C e | Inr x \<Rightarrow> Q x"
        by (simp add: returns_def)
      with Pair Inr show ?thesis by (simp add: bind_def)
    qed
  qed
qed

lemma returns_try:
  assumes "returns P C m"
    and "\<And>e. C e \<Longrightarrow> catches e \<Longrightarrow> returns P D (handler e)"
    and "\<And>e. C e \<Longrightarrow> \<not> catches e \<Longrightarrow> D e"
  shows "returns P D (try_except m catches handler)"
proof (rule returnsI)
  fix h
  show "case fst (try_except m catches handler h) of Inl e \<Rightarrow> D e | Inr x \<Rightarrow> P x"
  proof (cases "m h")
    case (Pair r h')
    show ?thesis
    proof (cases r)
      case (Inr x)
      with Pair returns_Inr [OF assms(1)] show ?thesis by (simp add: try_except_def)
    next
      case (Inl e)
      with Pair have Ce: "C e" using returns_Inl [OF assms(1)] by simp
      show ?thesis
      proof (cases "catches e")
        case True
        with Ce have "returns P D (handler e)" by (rule assms(2))
        then have "case fst (handler e h') of Inl e \<Rightarrow> D e | Inr x \<Rightarrow> P x"
          by (simp add: returns_def)
        with Pair Inl True show ?thesis by (simp add: try_except_def)
      next
        case False
        with Ce have "D e" by (rule assms(3))
        with Pair Inl False show ?thesis by (simp add: try_except_def)
      qed
    qed
  qed
qed

lemma returns_now: "returns (\<lambda>x. True) C (datetime_now env)"
  by (simp add: returns_def datetime_now_def)

lemma make_api_request_returns:
  "returns (\<lambda>r. r \<noteq> None) is_RequestException (make_api_request env rq)"
proof (rule returnsI)
  fix h
  obtain k where "make_api_request env rq h
        = (returned (attempt_outcome (net env (transport_history env rq k h) rq)),
           transport_history env rq k h @ [Sent rq])"
    using make_api_request_shape [of env rq h] by blast
  then show "case fst (make_api_request env rq h) of
               Inl e \<Rightarrow> is_RequestException e | Inr r \<Rightarrow> r \<noteq> None"
    by (simp add: returned_def attempt_outcome_def is_RequestException_def
        split: net_outcome.splits)
qed

lemma response_json_returns: "r \<noteq> None \<Longrightarrow> returns anything C (response_json r)"
  by (cases r) (simp_all add: response_json_def returns_ret anything_def)


lemma fetch_user_bookings_returns:
  "list_all (kept_for user_email) acc \<Longrightarrow>
   returns (list_all (kept_for user_email)) is_RequestException
     (fetch_user_bookings env user_email ids acc)"
proof (induction ids arbitrary: acc)
  case Nil
  then show ?case by (simp add: returns_ret)
next
  case (Cons booking_id ids)
  show ?case
    unfolding fetch_user_bookings.simps
  proof (intro returns_bind [OF make_api_request_returns] returns_bind [OF response_json_returns])
    fix r :: "response option" and body :: json_body
    assume "r \<noteq> None"
    then show "r \<noteq> None" .
  next
    fix r :: "response option" and body :: json_body
    show "returns (list_all (kept_for user_email)) is_RequestException
           (case j_booking body of
              None \<Rightarrow> fetch_user_bookings env user_email ids acc
            | Some booking_data \<Rightarrow>
                if b_status booking_data \<noteq> ''CANCELLED'' \<and>
                   list_ex (\<lambda>attendee. a_email attendee = user_email) (b_attendees booking_data)
                then fetch_user_bookings env user_email ids (acc @ [booking_data])
                else fetch_user_bookings env user_email ids acc)"
    proof (cases "j_booking body")
      case None
      then show ?thesis using Cons.IH [OF Cons.prems] by simp
    next
      case (Some booking_data)
      have cond: "(b_status booking_data \<noteq> ''CANCELLED'' \<and>
          list_ex (\<lambda>attendee. a_email attendee = user_email) (b_attendees booking_data))
          = kept_for user_email booking_data"
        by (simp add: kept_for_def)
      show ?thesis
      proof (cases "kept_for user_email booking_data")
        case True
        then have "list_all (kept_for user_email) (acc @ [booking_data])"
          using Cons.prems by simp
        then have "returns (list_all (kept_for user_email)) is_RequestException
            (fetch_user_bookings env user_email ids (acc @ [booking_data]))"
          by (rule Cons.IH)
        with True Some show ?thesis by (simp add: cond)
      next
        case False
        with Some Cons.IH [OF Cons.prems] show ?thesis by (simp add: cond)
      qed
    qed
  qed
qed

lemma get_user_bookings_detailed_try_returns:
  "returns (list_all (kept_for user_email)) is_RequestException
     (get_user_bookings_detailed_try env user_email)"
  unfolding get_user_bookings_detailed_try_def
  by (intro returns_bind [OF make_api_request_returns] returns_bind [OF response_json_returns])
     (simp_all add: Let_def fetch_user_bookings_returns)

lemma get_user_bookings_detailed_returns:
  "returns (list_all (kept_for user_email)) never (get_user_bookings_detailed env user_email)"
  unfolding get_user_bookings_detailed_def
  by (rule returns_try [OF get_user_bookings_detailed_try_returns]) (simp_all add: returns_ret)

lemma find_matching_returns:
  "list_all (kept_for user_email) bs \<Longrightarrow>
   returns (\<lambda>r. case r of None \<Rightarrow> True | Some b \<Rightarrow> kept_for user_email b) never
     (find_matching env target bs)"
proof (induction bs)
  case Nil
  show ?case by (simp add: returns_ret)
next
  case (Cons b bs)
  then have k: "kept_for user_email b" and rest: "list_all (kept_for user_email) bs" by simp_all
  from k obtain a others where att: "b_attendees b = a # others"
    by (cases "b_attendees b") (auto simp: kept_for_def)
  show ?case
    using Cons.IH [OF rest] k by (simp add: att returns_ret)
qed

lemma find_booking_returns:
  "returns (\<lambda>r. case r of None \<Rightarrow> True | Some b \<Rightarrow> kept_for user_email b) never
     (find_booking env user_email meeting_date meeting_time)"
  unfolding find_booking_def
  by (rule returns_bind [OF get_user_bookings_detailed_returns]) (rule find_matching_returns)




section \<open>Searching only reads\<close>

lemma is_get_requests:
  "each_event is_get pre evs \<Longrightarrow> list_all (\<lambda>rq. rq_method rq = GET) (requests_of evs)"
proof (induction evs arbitrary: pre)
  case Nil
  show ?case by simp
next
  case (Cons e evs)
  then show ?case by (cases e) (auto simp: is_get_def)
qed

lemma adds_only_fetch_user_bookings:
  assumes "\<And>h u. ok h (Sent (get_request u))" and "\<And>h t. ok h (Slept t)"
  shows "adds_only ok (fetch_user_bookings env user_email ids acc)"
proof (induction ids arbitrary: acc)
  case Nil
  show ?case by (simp add: adds_only_ret)
next
  case (Cons booking_id ids)
  show ?case
    unfolding fetch_user_bookings.simps
    by (intro adds_only_bind adds_only_make_api_request adds_only_response_json assms)
       (auto intro: Cons.IH split: option.splits)
qed

lemma adds_only_get_user_bookings_detailed:
  assumes "\<And>h u. ok h (Sent (get_request u))" and "\<And>h t. ok h (Slept t)"
  shows "adds_only ok (get_user_bookings_detailed env user_email)"
  unfolding get_user_bookings_detailed_def get_user_bookings_detailed_try_def
  by (intro adds_only_try adds_only_bind adds_only_make_api_request adds_only_response_json
        adds_only_ret assms)
     (simp add: Let_def adds_only_fetch_user_bookings assms)

lemma adds_only_find_matching: "adds_only ok (find_matching env target bs)"
  by (induction bs) (auto simp: adds_only_ret adds_only_raise split: list.splits)

lemma adds_only_find_booking:
  assumes "\<And>h u. ok h (Sent (get_request u))" and "\<And>h t. ok h (Slept t)"
  shows "adds_only ok (find_booking env user_email meeting_date meeting_time)"
  unfolding find_booking_def
  by (intro adds_only_bind adds_only_get_user_bookings_detailed adds_only_find_matching assms)

lemma find_booking_result:
  "\<exists>found h1. find_booking env user_email meeting_date meeting_time h = (Inr found, h1)"
proof -
  obtain r h1 where run: "find_booking env user_email meeting_date meeting_time h = (r, h1)"
    by (cases "find_booking env user_email meeting_date meeting_time h")
  show ?thesis
  proof (cases r)
    case (Inl e)
    with run have "never e" using returns_Inl [OF find_booking_returns] by blast
    then show ?thesis by (simp add: never_def)
  next
    case (Inr found)
    with run show ?thesis by blast
  qed
qed

text \<open>
  The search for the booking never raises and sends nothing but GET requests. When the
  search returns \<^verbatim>\<open>None\<close>, \<^verbatim>\<open>cancel_user_booking\<close> returns the not-found message as its
  text and leaves the history as the search left it: neither the cancel call nor the
  deletion of a reference record (the only DELETE requests of the program) is issued.
  What the search takes for a match is the test of \<open>find_matching\<close>, in the timezone of
  the first attendee.
\<close>

theorem cancel_not_found_no_delete:
  "\<exists>found h1 evs.
     find_booking env user_email meeting_date meeting_time h = (Inr found, h1)
   \<and> h1 = h @ evs
   \<and> list_all (\<lambda>rq. rq_method rq = GET) (requests_of evs)
   \<and> (found = None \<longrightarrow>
        cancel_user_booking env user_email meeting_date meeting_time cancellation_reason h
          = (Inr (''Error: No booking found for '' @ user_email @ '' on '' @ meeting_date
                  @ '' at '' @ meeting_time), h1))"
proof -
  obtain found h1 where run: "find_booking env user_email meeting_date meeting_time h = (Inr found, h1)"
    using find_booking_result by blast
  have "adds_only is_get (find_booking env user_email meeting_date meeting_time)"
    by (rule adds_only_find_booking) (simp_all add: is_get_def get_request_def)
  then obtain evs where evs: "h1 = h @ evs" "each_event is_get h evs"
    using adds_onlyD [of is_get _ h] run by fastforce
  have gets: "list_all (\<lambda>rq. rq_method rq = GET) (requests_of evs)"
    using evs(2) by (rule is_get_requests)
  have "cancel_user_booking env user_email meeting_date meeting_time cancellation_reason h
          = (Inr (''Error: No booking found for '' @ user_email @ '' on '' @ meeting_date
                  @ '' at '' @ meeting_time), h1)" if "found = None"
    using run that by (simp add: cancel_user_booking_def bind_def ret_def)
  with run evs(1) gets show ?thesis by blast
qed


lemma retry_with_backoff_once:
  "\<not> rate_limited (fst (func h)) \<Longrightarrow>
   retry_with_backoff env func h = (returned (fst (func h)), snd (func h))"
  using retry_with_backoff_run [of 0 func env h] by simp

lemma make_api_request_once:
  "\<not> answered_429 (net env h rq) \<Longrightarrow>
   make_api_request env rq h = (returned (attempt_outcome (net env h rq)), h @ [Sent rq])"
  unfolding make_api_request_def
  using retry_with_backoff_once [of "make_api_request_body env rq" h env]
  by (simp add: make_api_request_body_run rate_limited_attempt)

lemma demo_env_fields:
  "net (demo_env service clock) = service"
  "uniform01 (demo_env service clock) = (\<lambda>h. 1 / 2)"
  "now (demo_env service clock) = (\<lambda>h. clock)"
  "get_localzone (demo_env service clock) = Inr ''Europe/London''"
  "getlocale (demo_env service clock) = Inr (Some ''en_GB'')"
  "strptime (demo_env service clock) = demo_strptime"
  "localize (demo_env service clock) = demo_localize"
  "strftime (demo_env service clock) = demo_strftime"
  "format_wall (demo_env service clock) = (\<lambda>fmt w. ''another text'')"
  "set_iter (demo_env service clock) = remdups"
  "str_json (demo_env service clock) = (\<lambda>j. ''{}'')"
  "str_summary (demo_env service clock) = (\<lambda>j. ''{}'')"
  "dumps_bookings (demo_env service clock) = (\<lambda>bs. ''{}'')"
  "interpreter_text (demo_env service clock) = demo_interpreter_text"
  by (simp_all add: demo_env_def)

lemma demo_make_api_request:
  "status rq \<noteq> 429 \<Longrightarrow>
   make_api_request (demo_env (demo_service atts status) clock) rq h
     = (returned (attempt_outcome (demo_service atts status h rq)), h @ [Sent rq])"
  using make_api_request_once [of "demo_env (demo_service atts status) clock" h rq]
  by (simp add: demo_env_fields answered_429_def demo_service_def)

lemma demo_find_other_day:
  "find_booking (demo_env (demo_service [ann] (\<lambda>rq. 200)) 0) ''ann@example.org''
     ''2030-01-02'' ''10:00'' []
   = (Inr None, [Sent (get_request BookingReferencesUrl), Sent (get_request (BookingUrl 7))])"
proof -
  let ?env = "demo_env (demo_service [ann] (\<lambda>rq. 200)) 0"
  show ?thesis
    by (simp add: find_booking_def get_user_bookings_detailed_def get_user_bookings_detailed_try_def
        bind_def try_except_def ret_def demo_make_api_request returned_def
        attempt_outcome_def response_json_def dict_get_def Let_def
        demo_env_fields demo_service_def get_request_def empty_json_def demo_booking_def ann_def
        demo_strftime_def demo_offset_def)
qed

theorem cancel_not_found_no_delete_witness:
  "cancel_user_booking (demo_env (demo_service [ann] (\<lambda>rq. 200)) 0) ''ann@example.org''
     ''2030-01-02'' ''10:00'' None []
   = (Inr ''Error: No booking found for ann@example.org on 2030-01-02 at 10:00'',
      [Sent (get_request BookingReferencesUrl), Sent (get_request (BookingUrl 7))])"
proof -
  let ?env = "demo_env (demo_service [ann] (\<lambda>rq. 200)) 0"
  obtain found h1 where f:
      "find_booking ?env ''ann@example.org'' ''2030-01-02'' ''10:00'' [] = (Inr found, h1)"
      "found = None \<longrightarrow>
        cancel_user_booking ?env ''ann@example.org'' ''2030-01-02'' ''10:00'' None []
          = (Inr (''Error: No booking found for '' @ ''ann@example.org'' @ '' on '' @ ''2030-01-02''
                  @ '' at '' @ ''10:00''), h1)"
    using cancel_not_found_no_delete [of ?env "''ann@example.org''" "''2030-01-02''" "''10:00''" "[]" None]
    by blast
  from f(1) have "found = None"
      and "h1 = [Sent (get_request BookingReferencesUrl), Sent (get_request (BookingUrl 7))]"
    by (simp_all add: demo_find_other_day)
  with f(2) show ?thesis by simp
qed

section \<open>A failed enumeration\<close>

lemma get_user_bookings_detailed_empty:
  assumes "get_user_bookings_detailed_try env user_email h = (r, h1)"
    and "r = Inr [] \<or> (\<exists>e. r = Inl e)"
  shows "get_user_bookings_detailed env user_email h = (Inr [], h1)"
proof (cases r)
  case (Inr bs)
  with assms show ?thesis by (simp add: get_user_bookings_detailed_def try_except_def)
next
  case (Inl e)
  with assms(1) have "is_RequestException e"
    using returns_Inl [OF get_user_bookings_detailed_try_returns] by blast
  with Inl assms(1) show ?thesis
    by (simp add: get_user_bookings_detailed_def try_except_def ret_def)
qed

lemma find_booking_empty:
  "get_user_bookings_detailed env user_email h = (Inr [], h1) \<Longrightarrow>
   find_booking env user_email meeting_date meeting_time h = (Inr None, h1)"
  by (simp add: find_booking_def bind_def ret_def)

lemma reschedule_booking_not_found:
  assumes "truthy_str new_date \<or> truthy_str new_time \<or> truthy_int new_duration"
    and "find_booking env user_email meeting_date meeting_time h = (Inr None, h1)"
  shows "reschedule_booking env user_email meeting_date meeting_time new_date new_time new_duration h
     = (Inl (ValueError (''No booking found for '' @ user_email @ '' on '' @ meeting_date
                         @ '' at '' @ meeting_time)), h1)"
proof -
  let ?body = "reschedule_booking_body env user_email meeting_date meeting_time new_date new_time
                 new_duration"
  have body: "?body h = (Inl (ValueError (''No booking found for '' @ user_email @ '' on ''
                 @ meeting_date @ '' at '' @ meeting_time)), h1)"
    using assms by (auto simp: reschedule_booking_body_def bind_def raise_def)
  then have "\<not> rate_limited (fst (?body h))"
    by (simp add: rate_limited_def is_429_def)
  then show ?thesis
    unfolding reschedule_booking_def
    using retry_with_backoff_once [of ?body h env] body by (simp add: returned_def)
qed

lemma fetch_user_bookings_append:
  "fetch_user_bookings env user_email (xs @ ys) acc h =
     (case fetch_user_bookings env user_email xs acc h of
        (Inl e, h') \<Rightarrow> (Inl e, h')
      | (Inr acc', h') \<Rightarrow> fetch_user_bookings env user_email ys acc' h')"
proof (induction xs arbitrary: acc h)
  case Nil
  show ?case by (simp add: ret_def)
next
  case (Cons x xs)
  show ?case
    by (simp add: bind_def Cons.IH split: prod.splits sum.splits option.splits)
qed

text \<open>A failed fetch of one booking detail ends the loop with that failure.\<close>

lemma fetch_user_bookings_fails:
  assumes "fetch_user_bookings env user_email fetched acc h0 = (Inr kept, h')"
    and "make_api_request env (get_request (BookingUrl booking_id)) h' = (Inl e, h1)"
  shows "fetch_user_bookings env user_email (fetched @ booking_id # rest) acc h0 = (Inl e, h1)"
  using assms by (simp add: fetch_user_bookings_append bind_def)

lemma get_user_bookings_detailed_try_fails:
  assumes "make_api_request env (get_request BookingReferencesUrl) h = (Inl e, h1)
     \<or> (\<exists>response h0 fetched booking_id rest kept h'.
          make_api_request env (get_request BookingReferencesUrl) h = (Inr (Some response), h0)
        \<and> set_iter env (map ref_bookingId (filter (\<lambda>ref. ref_deleted ref = None)
              (dict_get (j_booking_references (json response)) [])))
            = fetched @ booking_id # rest
        \<and> fetch_user_bookings env user_email fetched [] h0 = (Inr kept, h')
        \<and> make_api_request env (get_request (BookingUrl booking_id)) h' = (Inl e, h1))"
  shows "get_user_bookings_detailed_try env user_email h = (Inl e, h1)"
  using assms
proof (elim disjE exE conjE)
  assume "make_api_request env (get_request BookingReferencesUrl) h = (Inl e, h1)"
  then show ?thesis by (simp add: get_user_bookings_detailed_try_def bind_def)
next
  fix response h0 fetched booking_id rest kept h'
  assume refs: "make_api_request env (get_request BookingReferencesUrl) h = (Inr (Some response), h0)"
    and ids: "set_iter env (map ref_bookingId (filter (\<lambda>ref. ref_deleted ref = None)
              (dict_get (j_booking_references (json response)) [])))
            = fetched @ booking_id # rest"
    and before: "fetch_user_bookings env user_email fetched [] h0 = (Inr kept, h')"
    and fails: "make_api_request env (get_request (BookingUrl booking_id)) h' = (Inl e, h1)"
  have "fetch_user_bookings env user_email (fetched @ booking_id # rest) [] h0 = (Inl e, h1)"
    using before fails by (rule fetch_user_bookings_fails)
  then show ?thesis
    using refs ids
    by (simp add: get_user_bookings_detailed_try_def bind_def response_json_def ret_def Let_def)
qed

text \<open>What the operations and their tool wrappers make of an empty enumeration.\<close>

lemma empty_enumeration_results:
  assumes "get_user_bookings_detailed env user_email h = (Inr [], h1)"
  shows "get_user_bookings env user_email h = (Inr (UserBookingsJson []), h1)
       \<and> bookings_tool_run env user_email h
           = (Inr (''No bookings found for '' @ user_email @ ''.''), h1)
       \<and> cancel_user_booking env user_email meeting_date meeting_time cancellation_reason h
           = (Inr (''Error: No booking found for '' @ user_email @ '' on '' @ meeting_date
                   @ '' at '' @ meeting_time), h1)
       \<and> cancel_tool_run env user_email meeting_date meeting_time cancellation_reason h
           = (Inr (''Error: No booking found for '' @ user_email @ '' on '' @ meeting_date
                   @ '' at '' @ meeting_time), h1)
       \<and> (truthy_str new_date \<or> truthy_str new_time \<or> truthy_int new_duration \<longrightarrow>
            reschedule_booking env user_email meeting_date meeting_time new_date new_time
              new_duration h
            = (Inl (ValueError (''No booking found for '' @ user_email @ '' on '' @ meeting_date
                                @ '' at '' @ meeting_time)), h1)
          \<and> reschedule_tool_run env user_email meeting_date meeting_time new_date new_time
              new_duration h
            = (Inl (ToolException (''An error occurred while rescheduling the booking: ''
                 @ ''No booking found for '' @ user_email @ '' on '' @ meeting_date
                 @ '' at '' @ meeting_time)), h1))"
proof -
  have lst: "get_user_bookings env user_email h = (Inr (UserBookingsJson []), h1)"
    using assms by (simp add: get_user_bookings_def try_except_def bind_def ret_def)
  have tool: "bookings_tool_run env user_email h
           = (Inr (''No bookings found for '' @ user_email @ ''.''), h1)"
    using lst by (simp add: bookings_tool_run_def try_except_def bind_def ret_def)
  have fnd: "find_booking env user_email meeting_date meeting_time h = (Inr None, h1)"
    using assms by (rule find_booking_empty)
  have cnl: "cancel_user_booking env user_email meeting_date meeting_time cancellation_reason h
           = (Inr (''Error: No booking found for '' @ user_email @ '' on '' @ meeting_date
                   @ '' at '' @ meeting_time), h1)"
    using fnd by (simp add: cancel_user_booking_def bind_def ret_def)
  have cnt: "cancel_tool_run env user_email meeting_date meeting_time cancellation_reason h
           = (Inr (''Error: No booking found for '' @ user_email @ '' on '' @ meeting_date
                   @ '' at '' @ meeting_time), h1)"
    using cnl by (simp add: cancel_tool_run_def try_except_def)
  have rsc: "reschedule_booking env user_email meeting_date meeting_time new_date new_time
              new_duration h
            = (Inl (ValueError (''No booking found for '' @ user_email @ '' on '' @ meeting_date
                                @ '' at '' @ meeting_time)), h1)"
    if "truthy_str new_date \<or> truthy_str new_time \<or> truthy_int new_duration"
    using that fnd by (rule reschedule_booking_not_found)
  have rst: "reschedule_tool_run env user_email meeting_date meeting_time new_date new_time
              new_duration h
            = (Inl (ToolException (''An error occurred while rescheduling the booking: ''
                 @ ''No booking found for '' @ user_email @ '' on '' @ meeting_date
                 @ '' at '' @ meeting_time)), h1)"
    if "truthy_str new_date \<or> truthy_str new_time \<or> truthy_int new_duration"
    using rsc [OF that]
    by (simp add: reschedule_tool_run_def try_except_def bind_def raise_def str_exc_def)
  from lst tool cnl cnt rsc rst show ?thesis by blast
qed

text \<open>
  C10. When the fetch of the reference list fails (\<^verbatim>\<open>make_api_request\<close> raises), or the
  reference list is fetched and, after the bookings before it were fetched, the fetch of
  one booking detail fails, the enumeration returns the empty list at the history of the
  failure: the failure is not propagated and the bookings fetched before it are dropped.
  Then the listing returns the empty \<^verbatim>\<open>user_bookings\<close> and its tool says that no bookings
  were found, \<^verbatim>\<open>cancel_user_booking\<close> and its tool return the not-found message, and
  \<^verbatim>\<open>reschedule_booking\<close> (given a new value) raises the not-found \<^verbatim>\<open>ValueError\<close>, which
  its tool hands on as a \<^verbatim>\<open>ToolException\<close> with that text. The same results follow when
  the enumeration genuinely finds no booking (the third case of the premise): the
  public results do not tell a failed enumeration from a user without bookings.
\<close>

theorem failed_enumeration_is_empty:
  assumes "make_api_request env (get_request BookingReferencesUrl) h = (Inl e, h1)
     \<or> (\<exists>response h0 fetched booking_id rest kept h'.
          make_api_request env (get_request BookingReferencesUrl) h = (Inr (Some response), h0)
        \<and> set_iter env (map ref_bookingId (filter (\<lambda>ref. ref_deleted ref = None)
              (dict_get (j_booking_references (json response)) [])))
            = fetched @ booking_id # rest
        \<and> fetch_user_bookings env user_email fetched [] h0 = (Inr kept, h')
        \<and> make_api_request env (get_request (BookingUrl booking_id)) h' = (Inl e, h1))
     \<or> get_user_bookings_detailed_try env user_email h = (Inr [], h1)"
  shows "get_user_bookings_detailed env user_email h = (Inr [], h1)
       \<and> get_user_bookings env user_email h = (Inr (UserBookingsJson []), h1)
       \<and> bookings_tool_run env user_email h
           = (Inr (''No bookings found for '' @ user_email @ ''.''), h1)
       \<and> cancel_user_booking env user_email meeting_date meeting_time cancellation_reason h
           = (Inr (''Error: No booking found for '' @ user_email @ '' on '' @ meeting_date
                   @ '' at '' @ meeting_time), h1)
       \<and> cancel_tool_run env user_email meeting_date meeting_time cancellation_reason h
           = (Inr (''Error: No booking found for '' @ user_email @ '' on '' @ meeting_date
                   @ '' at '' @ meeting_time), h1)
       \<and> (truthy_str new_date \<or> truthy_str new_time \<or> truthy_int new_duration \<longrightarrow>
            reschedule_booking env user_email meeting_date meeting_time new_date new_time
              new_duration h
            = (Inl (ValueError (''No booking found for '' @ user_email @ '' on '' @ meeting_date
                                @ '' at '' @ meeting_time)), h1)
          \<and> reschedule_tool_run env user_email meeting_date meeting_time new_date new_time
              new_duration h
            = (Inl (ToolException (''An error occurred while rescheduling the booking: ''
                 @ ''No booking found for '' @ user_email @ '' on '' @ meeting_date
                 @ '' at '' @ meeting_time)), h1))"
proof -
  have "\<exists>r. get_user_bookings_detailed_try env user_email h = (r, h1)
          \<and> (r = Inr [] \<or> (\<exists>e. r = Inl e))"
    using assms
  proof (elim disjE)
    assume "get_user_bookings_detailed_try env user_email h = (Inr [], h1)"
    then show ?thesis by blast
  next
    assume "make_api_request env (get_request BookingReferencesUrl) h = (Inl e, h1)"
    then have "get_user_bookings_detailed_try env user_email h = (Inl e, h1)"
      using get_user_bookings_detailed_try_fails [of env h e h1 user_email] by blast
    then show ?thesis by blast
  next
    assume "\<exists>response h0 fetched booking_id rest kept h'.
          make_api_request env (get_request BookingReferencesUrl) h = (Inr (Some response), h0)
        \<and> set_iter env (map ref_bookingId (filter (\<lambda>ref. ref_deleted ref = None)
              (dict_get (j_booking_references (json response)) [])))
            = fetched @ booking_id # rest
        \<and> fetch_user_bookings env user_email fetched [] h0 = (Inr kept, h')
        \<and> make_api_request env (get_request (BookingUrl booking_id)) h' = (Inl e, h1)"
    then have "get_user_bookings_detailed_try env user_email h = (Inl e, h1)"
      using get_user_bookings_detailed_try_fails [of env h e h1 user_email] by blast
    then show ?thesis by blast
  qed
  then obtain r where "get_user_bookings_detailed_try env user_email h = (r, h1)"
      "r = Inr [] \<or> (\<exists>e. r = Inl e)"
    by blast
  then have det: "get_user_bookings_detailed env user_email h = (Inr [], h1)"
    by (rule get_user_bookings_detailed_empty)
  from det empty_enumeration_results [OF det, of meeting_date meeting_time cancellation_reason
      new_date new_time new_duration]
  show ?thesis by blast
qed

theorem failed_enumeration_is_empty_witness:
  "get_user_bookings (demo_env (demo_service [ann] detail_fails) 0) ''ann@example.org'' []
     = (Inr (UserBookingsJson []),
        [Sent (get_request BookingReferencesUrl), Sent (get_request (BookingUrl 7))])
   \<and> bookings_tool_run (demo_env (demo_service [ann] detail_fails) 0) ''ann@example.org'' []
     = (Inr ''No bookings found for ann@example.org.'',
        [Sent (get_request BookingReferencesUrl), Sent (get_request (BookingUrl 7))])
   \<and> cancel_user_booking (demo_env (demo_service [ann] detail_fails) 0) ''ann@example.org''
       ''2030-01-01'' ''10:00'' None []
     = (Inr ''Error: No booking found for ann@example.org on 2030-01-01 at 10:00'',
        [Sent (get_request BookingReferencesUrl), Sent (get_request (BookingUrl 7))])
   \<and> reschedule_booking (demo_env (demo_service [ann] detail_fails) 0) ''ann@example.org''
       ''2030-01-01'' ''10:00'' (Some ''2030-01-02'') None None []
     = (Inl (ValueError ''No booking found for ann@example.org on 2030-01-01 at 10:00''),
        [Sent (get_request BookingReferencesUrl), Sent (get_request (BookingUrl 7))])"
proof -
  let ?env = "demo_env (demo_service [ann] detail_fails) 0"
  let ?h0 = "[Sent (get_request BookingReferencesUrl)]"
  let ?h1 = "[Sent (get_request BookingReferencesUrl), Sent (get_request (BookingUrl 7))]"
  let ?refs = "\<lparr>status_code = 200, reason_phrase = ''OK'',
                response_url = ''https://api.cal.com/v1/booking-references?apiKey=KEY'',
                json = empty_json\<lparr>j_booking_references :=
                  Some [\<lparr>ref_id = 3, ref_bookingId = 7, ref_deleted = None\<rparr>]\<rparr>\<rparr>"
  let ?e = "HTTPError \<lparr>status_code = 500, reason_phrase = ''Internal Server Error'',
                response_url = ''https://api.cal.com/v1/bookings/7?apiKey=KEY'',
                json = empty_json\<lparr>j_booking := Some (demo_booking [ann])\<rparr>\<rparr>"
  have refs: "make_api_request ?env (get_request BookingReferencesUrl) [] = (Inr (Some ?refs), ?h0)"
    by (simp add: demo_make_api_request detail_fails_def returned_def attempt_outcome_def
        demo_service_def get_request_def demo_reason_def url_text_def)
  have ids: "set_iter ?env (map ref_bookingId (filter (\<lambda>ref. ref_deleted ref = None)
              (dict_get (j_booking_references (json ?refs)) []))) = [] @ 7 # []"
    by (simp add: demo_env_fields dict_get_def empty_json_def)
  have before: "fetch_user_bookings ?env ''ann@example.org'' [] [] ?h0 = (Inr [], ?h0)"
    by (simp add: ret_def)
  have fails: "make_api_request ?env (get_request (BookingUrl 7)) ?h0 = (Inl ?e, ?h1)"
    by (simp add: demo_make_api_request detail_fails_def returned_def attempt_outcome_def
        demo_service_def get_request_def demo_reason_def url_text_def str_int_7)
  have new: "truthy_str (Some ''2030-01-02'') \<or> truthy_str None \<or> truthy_int None"
    by (simp add: truthy_str_def)
  have failed: "make_api_request ?env (get_request BookingReferencesUrl) [] = (Inl ?e, ?h1)
     \<or> (\<exists>response h0 fetched booking_id rest kept h'.
          make_api_request ?env (get_request BookingReferencesUrl) [] = (Inr (Some response), h0)
        \<and> set_iter ?env (map ref_bookingId (filter (\<lambda>ref. ref_deleted ref = None)
              (dict_get (j_booking_references (json response)) [])))
            = fetched @ booking_id # rest
        \<and> fetch_user_bookings ?env ''ann@example.org'' fetched [] h0 = (Inr kept, h')
        \<and> make_api_request ?env (get_request (BookingUrl booking_id)) h' = (Inl ?e, ?h1))
     \<or> get_user_bookings_detailed_try ?env ''ann@example.org'' [] = (Inr [], ?h1)"
    using refs ids before fails by blast
  show ?thesis
    using failed_enumeration_is_empty [OF failed, of "''2030-01-01''" "''10:00''" None
        "Some ''2030-01-02''" None None] new
    by simp
qed

section \<open>Creating a booking\<close>

lemma get_system_info_run:
  "get_system_info env h =
     (case get_localzone env of
        Inl e \<Rightarrow> (Inl e, h)
      | Inr timezone \<Rightarrow>
          (case getlocale env of
             Inl e \<Rightarrow> (Inl e, h)
           | Inr None \<Rightarrow> (Inl AttributeError, h)
           | Inr (Some l) \<Rightarrow> (Inr (timezone, takeWhile (\<lambda>c. c \<noteq> CHR ''_'') l), h)))"
  by (simp add: get_system_info_def lift_def bind_def ret_def raise_def
      split: sum.splits option.splits)

lemma get_system_info_history: "snd (get_system_info env h) = h"
  by (simp add: get_system_info_run split: sum.splits option.splits)

lemma timedelta_minutes_valid:
  "v \<in> set valid_durations \<Longrightarrow> timedelta_minutes v = Inr (v * 60000000)"
  by (auto simp: valid_durations_def timedelta_minutes_def)

lemma datetime_add_cases:
  "datetime_add dt delta = Inl OverflowError
   \<or> datetime_add dt delta = Inr (dt\<lparr>instant_of := instant_of dt + delta\<rparr>)"
  by (simp add: datetime_add_def)

text \<open>
  The first \<^verbatim>\<open>try\<close> block of \<^verbatim>\<open>create_booking\<close> sends nothing. A \<^verbatim>\<open>ValueError\<close> is turned
  into the format message; any other exception of the localization, and the
  \<^verbatim>\<open>OverflowError\<close> of the addition, leave the function.
\<close>

lemma create_resolve_run:
  assumes "timedelta_minutes v = Inr delta"
  shows "create_resolve env tz date time v h =
     (case strptime env (date @ '' '' @ time) of
        None \<Rightarrow>
          (Inr (Inl (ErrorJson
             ''Invalid date or time format. Please use YYYY-MM-DD for date and HH:MM for time.'')), h)
      | Some naive \<Rightarrow>
          (case localize env tz naive of
             Inl e \<Rightarrow>
               if is_ValueError e then
                 (Inr (Inl (ErrorJson
                    ''Invalid date or time format. Please use YYYY-MM-DD for date and HH:MM for time.'')), h)
               else (Inl e, h)
           | Inr start_time \<Rightarrow>
               (case datetime_add start_time delta of
                  Inl e \<Rightarrow> (Inl OverflowError, h)
                | Inr end_time \<Rightarrow>
                    if instant_of start_time < now env h then
                      (Inr (Inl (ErrorJson
                         ''Cannot book a meeting in the past. Please choose a future date and time.'')), h)
                    else (Inr (Inr (start_time, end_time)), h))))"
proof (cases "strptime env (date @ '' '' @ time)")
  case None
  then show ?thesis
    by (simp add: create_resolve_def try_except_def raise_def ret_def is_ValueError_def)
next
  case (Some naive)
  show ?thesis
  proof (cases "localize env tz naive")
    case (Inl e)
    with Some show ?thesis
      by (simp add: create_resolve_def try_except_def lift_def bind_def raise_def ret_def)
  next
    case (Inr start_time)
    from datetime_add_cases [of start_time delta] show ?thesis
    proof
      assume "datetime_add start_time delta = Inl OverflowError"
      with Some Inr assms show ?thesis
        by (simp add: create_resolve_def try_except_def lift_def bind_def
            raise_def ret_def is_ValueError_def)
    next
      assume "datetime_add start_time delta = Inr (start_time\<lparr>instant_of := instant_of start_time + delta\<rparr>)"
      with Some Inr assms show ?thesis
        by (simp add: create_resolve_def try_except_def lift_def bind_def
            raise_def ret_def datetime_now_def)
    qed
  qed
qed

lemma create_resolve_history: "snd (create_resolve env tz date time v h) = h"
  by (simp add: create_resolve_def try_except_def lift_def bind_def raise_def ret_def
      datetime_now_def split: option.splits sum.splits prod.splits)

text \<open>With the system information at hand, \<^verbatim>\<open>create_booking\<close> runs as follows.\<close>

lemma create_booking_run:
  assumes si: "get_system_info env h = (Inr (tz, lang), h)"
    and v: "find_closest_duration duration = Some v"
  shows "case strptime env (date @ '' '' @ time) of
        None \<Rightarrow>
          create_booking env date time duration reason name email h
            = (Inr (ErrorJson
                 ''Invalid date or time format. Please use YYYY-MM-DD for date and HH:MM for time.''), h)
      | Some naive \<Rightarrow>
          (case localize env tz naive of
             Inl e \<Rightarrow>
               create_booking env date time duration reason name email h
                 = (if is_ValueError e then
                      (Inr (ErrorJson
                         ''Invalid date or time format. Please use YYYY-MM-DD for date and HH:MM for time.''), h)
                    else (Inl e, h))
           | Inr start_time \<Rightarrow>
               (case datetime_add start_time (v * 60000000) of
                  Inl e \<Rightarrow>
                    create_booking env date time duration reason name email h
                      = (Inl OverflowError, h)
                | Inr end_time \<Rightarrow>
                    if instant_of start_time < now env h then
                      create_booking env date time duration reason name email h
                        = (Inr (ErrorJson
                             ''Cannot book a meeting in the past. Please choose a future date and time.''), h)
                    else
                      (\<exists>j. create_booking env date time duration reason name email h
                         = (Inr j, h @ [Sent (create_request (instant_of start_time)
                               (instant_of end_time) name email reason tz lang)]))))"
proof -
  have "v \<in> set valid_durations"
    using v find_closest_duration_Some [of duration] by auto
  then have td: "timedelta_minutes v = Inr (v * 60000000)"
    by (rule timedelta_minutes_valid)
  note rs = create_resolve_run [OF td, of env tz date time h]
  show ?thesis
    by (auto simp: create_booking_def si v bind_def rs ret_def try_except_def
        requests_request_def is_RequestException_def
        split: option.splits sum.splits net_outcome.splits)
qed


text \<open>What \<^verbatim>\<open>create_booking\<close> raises comes from the libraries, never from the service.\<close>

lemma create_booking_result:
  assumes si: "get_system_info env h = (Inr (tz, lang), h)"
    and start: "strptime env (date @ '' '' @ time) = None
       \<or> (\<exists>naive m. strptime env (date @ '' '' @ time) = Some naive
            \<and> localize env tz naive = Inl (ValueError m))
       \<or> (\<exists>naive start_time end_time v. strptime env (date @ '' '' @ time) = Some naive
            \<and> localize env tz naive = Inr start_time
            \<and> find_closest_duration duration = Some v
            \<and> datetime_add start_time (v * 60000000) = Inr end_time)"
  shows "\<exists>j h'. create_booking env date time duration reason name email h = (Inr j, h')"
proof -
  obtain v where v: "find_closest_duration duration = Some v"
    using find_closest_duration_Some [of duration] by blast
  from create_booking_run [OF si v, of date time reason name email] start v
  show ?thesis
    by (auto simp: is_ValueError_def split: option.splits sum.splits if_splits)
qed


lemma create_booking_overflow:
  assumes "get_system_info env h = (Inr (tz, lang), h)"
    and "strptime env (date @ '' '' @ time) = Some naive"
    and "localize env tz naive = Inr start_time"
    and "find_closest_duration duration = Some v"
    and "datetime_add start_time (v * 60000000) = Inl e"
  shows "create_booking env date time duration reason name email h = (Inl OverflowError, h)"
  using create_booking_run [OF assms(1) assms(4), of date time reason name email] assms
  by simp


section \<open>Rescheduling\<close>




lemma reschedule_submit_run:
  "reschedule_submit env rq h =
     (case net env h rq of
        NetFail t \<Rightarrow> Inl UnboundLocalError
      | Resp r \<Rightarrow>
          if 400 \<le> status_code r \<and> status_code r < 600 then Inl (HTTPError r)
          else Inr (json r),
      h @ [Sent rq])"
  by (simp add: reschedule_submit_def requests_request_def try_except_def bind_def
      raise_for_status_def ret_def raise_def is_RequestException_def split: net_outcome.splits)






text \<open>
  Once the booking is found and the new start is resolved, the end is computed first:
  its \<^verbatim>\<open>OverflowError\<close> comes before the comparison of the start with the clock.
\<close>

lemma reschedule_booking_body_found:
  assumes "truthy_str new_date \<or> truthy_str new_time \<or> truthy_int new_duration"
    and "find_booking env user_email meeting_date meeting_time h = (Inr (Some found), h1)"
    and "b_attendees found = first_attendee # others"
    and "reschedule_start env found (a_timeZone first_attendee) meeting_date meeting_time
           new_date new_time h1 = (Inr start_time, h1)"
  shows "reschedule_booking_body env user_email meeting_date meeting_time new_date new_time
           new_duration h
         = (case reschedule_end found start_time new_duration of
              Inl e \<Rightarrow> (Inl e, h1)
            | Inr end_time \<Rightarrow>
                if instant_of start_time < now env h1 then
                  (Inl (ValueError
                     ''Cannot reschedule a meeting to a past date and time. Please choose a future date and time.''),
                   h1)
                else reschedule_submit env
                       (patch_request (b_id found) (instant_of start_time)
                          (instant_of end_time)) h1)"
  using assms
  by (auto simp: reschedule_booking_body_def bind_def raise_def ret_def lift_def datetime_now_def
      split: sum.splits)




lemma demo_find_ann:
  "find_booking (demo_env (demo_service [ann] (\<lambda>rq. 200)) clock) ''ann@example.org''
     ''2030-01-01'' ''10:00'' []
   = (Inr (Some (demo_booking [ann])),
      [Sent (get_request BookingReferencesUrl), Sent (get_request (BookingUrl 7))])"
  by (simp add: find_booking_def get_user_bookings_detailed_def get_user_bookings_detailed_try_def
      bind_def try_except_def ret_def demo_make_api_request returned_def
      attempt_outcome_def response_json_def dict_get_def Let_def
      demo_env_fields demo_service_def get_request_def empty_json_def demo_booking_def ann_def
      demo_strftime_def demo_offset_def)

lemma demo_system_info:
  "get_system_info (demo_env service clock) h = (Inr (''Europe/London'', ''en''), h)"
  by (simp add: get_system_info_run demo_env_fields)




section \<open>Failure paths\<close>


lemma reschedule_booking_no_new_values:
  assumes "\<not> truthy_str new_date \<and> \<not> truthy_str new_time \<and> \<not> truthy_int new_duration"
  shows "reschedule_booking env user_email meeting_date meeting_time new_date new_time
           new_duration h
         = (Inl (ValueError ''No new values provided for rescheduling''), h)"
proof -
  let ?body = "reschedule_booking_body env user_email meeting_date meeting_time new_date new_time
                 new_duration"
  have body: "?body h = (Inl (ValueError ''No new values provided for rescheduling''), h)"
    using assms by (simp add: reschedule_booking_body_def raise_def)
  then have "\<not> rate_limited (fst (?body h))"
    by (simp add: rate_limited_def is_429_def)
  then show ?thesis
    unfolding reschedule_booking_def
    using retry_with_backoff_once [of ?body h env] body by (simp add: returned_def)
qed












section \<open>Where the code departs from the specification\<close>

lemmas demo_run =
  find_booking_def get_user_bookings_detailed_def get_user_bookings_detailed_try_def
  bind_def try_except_def ret_def demo_make_api_request returned_def
  attempt_outcome_def response_json_def response_status_code_def dict_get_def Let_def
  demo_env_fields demo_service_def get_request_def delete_request_def empty_json_def
  demo_booking_def ann_def host_def demo_strftime_def demo_offset_def demo_reason_def

text \<open>
  C1, on a concrete run: rescheduling Ann's booking with \<^verbatim>\<open>new_duration=35\<close> sends an
  update whose end is the start plus 35 minutes. 35 is not an allowed duration; the
  normalizer would have made it 30.
\<close>

theorem reschedule_duration_not_snapped:
  "reschedule_booking (demo_env (demo_service [ann] (\<lambda>rq. 200)) 0) ''ann@example.org''
     ''2030-01-01'' ''10:00'' None None (Some 35) []
     = (Inr (Some (empty_json\<lparr>j_booking := Some (demo_booking [ann])\<rparr>)),
        [Sent (get_request BookingReferencesUrl), Sent (get_request (BookingUrl 7)),
         Sent (patch_request 7 1893492000000000 (1893492000000000 + 35 * 60000000))])
   \<and> 35 \<notin> set valid_durations
   \<and> find_closest_duration 35 = Some 30"
proof -
  let ?env = "demo_env (demo_service [ann] (\<lambda>rq. 200)) 0"
  let ?h1 = "[Sent (get_request BookingReferencesUrl), Sent (get_request (BookingUrl 7))]"
  let ?body = "reschedule_booking_body ?env ''ann@example.org'' ''2030-01-01'' ''10:00'' None None
                 (Some 35)"
  let ?rq = "patch_request 7 1893492000000000 (1893492000000000 + 35 * 60000000)"
  let ?start = "\<lparr>instant_of = 1893492000000000, utcoffset = 0\<rparr>"
  have new: "truthy_str None \<or> truthy_str None \<or> truthy_int (Some 35)"
    by (simp add: truthy_int_def)
  have found: "find_booking ?env ''ann@example.org'' ''2030-01-01'' ''10:00'' []
      = (Inr (Some (demo_booking [ann])), ?h1)"
    by (rule demo_find_ann)
  have att: "b_attendees (demo_booking [ann]) = ann # []"
    by (simp add: demo_booking_def)
  have start: "reschedule_start ?env (demo_booking [ann]) (a_timeZone ann) ''2030-01-01'' ''10:00''
      None None ?h1 = (Inr ?start, ?h1)"
    by (simp add: reschedule_start_def truthy_str_def ret_def demo_booking_def)
  have ending: "reschedule_end (demo_booking [ann]) ?start (Some 35)
      = Inr \<lparr>instant_of = 1893492000000000 + 35 * 60000000, utcoffset = 0\<rparr>"
    by (simp add: reschedule_end_def truthy_int_def dict_get_def timedelta_minutes_def
        datetime_add_def datetime_min_def datetime_max_def)
  have bid: "b_id (demo_booking [ann]) = 7"
    by (simp add: demo_booking_def)
  have body: "?body [] = (Inr (empty_json\<lparr>j_booking := Some (demo_booking [ann])\<rparr>), ?h1 @ [Sent ?rq])"
    using reschedule_booking_body_found [OF new found att start]
    by (simp add: ending bid reschedule_submit_run demo_env_fields demo_service_def
        patch_request_def)
  then have "\<not> rate_limited (fst (?body []))"
    by (simp add: rate_limited_def)
  then have run: "reschedule_booking ?env ''ann@example.org'' ''2030-01-01'' ''10:00'' None None
      (Some 35) [] = (Inr (Some (empty_json\<lparr>j_booking := Some (demo_booking [ann])\<rparr>)), ?h1 @ [Sent ?rq])"
    unfolding reschedule_booking_def
    using retry_with_backoff_once [of ?body "[]" ?env] body by (simp add: returned_def)
  have "35 \<notin> set valid_durations"
    by (simp add: valid_durations_def)
  moreover have "find_closest_duration 35 = Some 30"
    by (simp add: find_closest_duration_def py_min_def valid_durations_def)
  ultimately show ?thesis using run by simp
qed

text \<open>
  C3, on a concrete run: the booking has two attendees, the host in Tokyo first and Ann
  in London second. Its start is 10:00 on 1 January 2030 in Ann's own timezone, yet the
  search for Ann's booking at that date and time finds nothing, and the search at 19:00,
  the start in the host's timezone, returns it.
\<close>

theorem find_booking_first_attendee_timezone:
  "find_booking (demo_env (demo_service [host, ann] (\<lambda>rq. 200)) 0) ''ann@example.org''
     ''2030-01-01'' ''10:00'' []
     = (Inr None, [Sent (get_request BookingReferencesUrl), Sent (get_request (BookingUrl 7))])
   \<and> find_booking (demo_env (demo_service [host, ann] (\<lambda>rq. 200)) 0) ''ann@example.org''
       ''2030-01-01'' ''19:00'' []
     = (Inr (Some (demo_booking [host, ann])),
        [Sent (get_request BookingReferencesUrl), Sent (get_request (BookingUrl 7))])
   \<and> strftime (demo_env (demo_service [host, ann] (\<lambda>rq. 200)) 0) ''%Y-%m-%dT%H:%M:00''
       (Some (a_timeZone ann)) (b_startTime (demo_booking [host, ann]))
     = ''2030-01-01'' @ ''T'' @ ''10:00'' @ '':00''"
  by (simp add: demo_run)

text \<open>
  C5, on a concrete run: the service answers the submission of a new booking with
  status 429. \<^verbatim>\<open>create_booking\<close> sends the request once, does not sleep, and returns
  an error text.
\<close>

theorem create_booking_no_retry:
  "create_booking (demo_env (demo_service [ann] (\<lambda>rq. 429)) 0)
     ''2030-01-02'' ''10:00'' 30 ''Review'' ''Ann'' ''ann@example.org'' []
     = (Inr (ErrorJson ''Error creating booking: Unknown error''),
        [Sent (create_request 1893578400000000 1893580200000000 ''Ann'' ''ann@example.org''
                 ''Review'' ''Europe/London'' ''en'')])"
proof -
  let ?env = "demo_env (demo_service [ann] (\<lambda>rq. 429)) 0"
  have snap: "find_closest_duration 30 = Some 30"
    by (simp add: find_closest_duration_def py_min_def valid_durations_def)
  have delta: "timedelta_minutes 30 = Inr (30 * 60000000)"
    by (simp add: timedelta_minutes_def)
  have resolved: "create_resolve ?env ''Europe/London'' ''2030-01-02'' ''10:00'' 30 []
      = (Inr (Inr (\<lparr>instant_of = 1893578400000000, utcoffset = 0\<rparr>,
                   \<lparr>instant_of = 1893580200000000, utcoffset = 0\<rparr>)), [])"
    by (simp add: create_resolve_run [OF delta] demo_env_fields demo_strptime_def
        demo_localize_def demo_offset_def datetime_add_def datetime_min_def datetime_max_def)
  show ?thesis
    by (simp add: create_booking_def demo_system_info snap resolved bind_def try_except_def
        ret_def requests_request_def demo_env_fields demo_service_def create_request_def
        empty_json_def dict_get_def create_error_def)
qed

text \<open>
  C6, on a concrete run: the cancel call succeeds, the matching reference is found, and
  the service answers its deletion with status 500. \<^verbatim>\<open>make_api_request\<close> raises for that
  status, so the branch that says the booking was cancelled is not reached: the text
  returned is that of the handler, which does not say that the booking was cancelled.
\<close>

theorem cancel_reference_delete_fails:
  "cancel_user_booking (demo_env (demo_service [ann] reference_delete_fails) 0)
     ''ann@example.org'' ''2030-01-01'' ''10:00'' None []
     = (Inr (''Error cancelling booking or deleting reference: 500 Server Error: ''
            @ ''Internal Server Error for url: ''
            @ ''https://api.cal.com/v1/booking-references/3?apiKey=KEY''),
        [Sent (get_request BookingReferencesUrl), Sent (get_request (BookingUrl 7)),
         Sent (delete_request (BookingCancelUrl 7) None),
         Sent (get_request BookingReferencesUrl),
         Sent (delete_request (BookingReferenceUrl 3) None)])"
  by (simp add: cancel_user_booking_def demo_run reference_delete_fails_def truthy_str_def
      is_RequestException_def str_exc_def http_error_msg_def url_text_def demo_texts)

text \<open>
  C9, on a concrete run: the booking of the third example, with the host in Tokyo first
  and Ann in London second, starts at 10:00 on 1 January 2030 in Ann's own timezone, so
  Ann has no booking at 19:00 of that day. Yet the cancel operation for Ann at 19:00
  finds the booking through the host's timezone, cancels it and deletes its reference:
  it sends both \<^verbatim>\<open>DELETE\<close> requests and reports success.
\<close>

theorem cancel_first_attendee_timezone:
  "cancel_user_booking (demo_env (demo_service [host, ann] (\<lambda>rq. 200)) 0)
     ''ann@example.org'' ''2030-01-01'' ''19:00'' None []
     = (Inr (''Successfully cancelled booking and deleted reference for ann@example.org''
             @ '' on 2030-01-01 at 19:00''),
        [Sent (get_request BookingReferencesUrl), Sent (get_request (BookingUrl 7)),
         Sent (delete_request (BookingCancelUrl 7) None),
         Sent (get_request BookingReferencesUrl),
         Sent (delete_request (BookingReferenceUrl 3) None)])
   \<and> get_user_bookings_detailed (demo_env (demo_service [host, ann] (\<lambda>rq. 200)) 0)
       ''ann@example.org'' []
     = (Inr [demo_booking [host, ann]],
        [Sent (get_request BookingReferencesUrl), Sent (get_request (BookingUrl 7))])
   \<and> strftime (demo_env (demo_service [host, ann] (\<lambda>rq. 200)) 0) ''%Y-%m-%dT%H:%M:00''
       (Some (a_timeZone ann)) (b_startTime (demo_booking [host, ann]))
     = ''2030-01-01'' @ ''T'' @ ''10:00'' @ '':00''"
  by (simp add: cancel_user_booking_def demo_run truthy_str_def)

section \<open>Further properties\<close>

text \<open>
  What \<^verbatim>\<open>create_booking\<close> sends: nothing, or one POST whose end is its start plus the
  normalized duration, a member of the allowed set.
\<close>

theorem create_booking_duration_snapped:
  "\<exists>evs. snd (create_booking env date time duration reason name email h) = h @ evs
     \<and> (evs = []
        \<or> (\<exists>v (start_time :: aware) (end_time :: aware) timezone language.
              find_closest_duration duration = Some v
            \<and> v \<in> {5, 10, 15, 20, 25, 30, 45, 50, 60, 75, 80, 90, 120, 150, 180, 240, 300, 360,
                     420, 480}
            \<and> instant_of end_time = instant_of start_time + v * 60000000
            \<and> evs = [Sent (create_request (instant_of start_time) (instant_of end_time)
                              name email reason timezone language)]))"
proof -
  obtain v where v: "find_closest_duration duration = Some v" "v \<in> set valid_durations"
    using find_closest_duration_Some [of duration] by blast
  have mem: "v \<in> {5, 10, 15, 20, 25, 30, 45, 50, 60, 75, 80, 90, 120, 150, 180, 240, 300, 360,
                   420, 480}"
    using v(2) unfolding set_valid_durations .
  have hist: "snd (get_system_info env h) = h" by (rule get_system_info_history)
  show ?thesis
  proof (cases "fst (get_system_info env h)")
    case (Inl e)
    with hist have "get_system_info env h = (Inl e, h)" by (simp add: prod_eq_iff)
    then show ?thesis by (simp add: create_booking_def bind_def)
  next
    case (Inr info)
    obtain tz lang where "info = (tz, lang)" by (cases info)
    with Inr hist have si: "get_system_info env h = (Inr (tz, lang), h)"
      by (simp add: prod_eq_iff)
    note run = create_booking_run [OF si v(1), of date time reason name email]
    show ?thesis
    proof (cases "strptime env (date @ '' '' @ time)")
      case None
      with run show ?thesis by simp
    next
      case (Some naive)
      show ?thesis
      proof (cases "localize env tz naive")
        case (Inl e)
        with Some run show ?thesis by simp
      next
        case start: (Inr start_time)
        from datetime_add_cases [of start_time "v * 60000000"] show ?thesis
        proof
          assume "datetime_add start_time (v * 60000000) = Inl OverflowError"
          with Some start run show ?thesis by simp
        next
          assume ending: "datetime_add start_time (v * 60000000)
            = Inr (start_time\<lparr>instant_of := instant_of start_time + v * 60000000\<rparr>)"
          show ?thesis
          proof (cases "instant_of start_time < now env h")
            case True
            with Some start ending run show ?thesis by simp
          next
            case False
            define end_time
              where "end_time = start_time\<lparr>instant_of := instant_of start_time + v * 60000000\<rparr>"
            have e: "instant_of end_time = instant_of start_time + v * 60000000"
              by (simp add: end_time_def)
            from False Some start ending run obtain j where
              "create_booking env date time duration reason name email h
                 = (Inr j, h @ [Sent (create_request (instant_of start_time)
                     (instant_of end_time) name email reason tz lang)])"
              by (auto simp: end_time_def)
            then have s: "snd (create_booking env date time duration reason name email h)
                = h @ [Sent (create_request (instant_of start_time) (instant_of end_time)
                     name email reason tz lang)]"
              by simp
            show ?thesis
              apply (rule exI [of _ "[Sent (create_request (instant_of start_time)
                  (instant_of end_time) name email reason tz lang)]"])
              apply (rule conjI [OF s])
              apply (rule disjI2)
              apply (rule exI [of _ v])
              apply (rule exI [of _ start_time])
              apply (rule exI [of _ end_time])
              apply (rule exI [of _ tz])
              apply (rule exI [of _ lang])
              apply (intro conjI refl v(1) mem e)
              done
          qed
        qed
      qed
    qed
  qed
qed

text \<open>
  \<^verbatim>\<open>_find_booking\<close> on the enumerated bookings: the search returns the first booking, in
  the order of the enumeration, whose start in the timezone of its first attendee is the
  target, and \<^verbatim>\<open>None\<close> when there is none; it adds nothing to the history.
\<close>

theorem find_matching_first:
  "list_all (kept_for user_email) bookings \<Longrightarrow>
   find_matching env target_datetime bookings h
     = (Inr (find (matches_target env target_datetime) bookings), h)"
proof (induction bookings)
  case Nil
  show ?case by (simp add: ret_def)
next
  case (Cons b bookings)
  then have k: "kept_for user_email b" and rest: "list_all (kept_for user_email) bookings"
    by simp_all
  from k obtain a others where att: "b_attendees b = a # others"
    by (cases "b_attendees b") (auto simp: kept_for_def)
  show ?case
    using Cons.IH [OF rest] by (simp add: att matches_target_def ret_def)
qed

theorem find_matching_first_witness:
  "list_all (kept_for ''ann@example.org'') [demo_booking [host, ann]]
   \<and> find_matching (demo_env (demo_service [host, ann] (\<lambda>rq. 200)) 0) ''2030-01-01T19:00:00''
       [demo_booking [host, ann]] []
     = (Inr (Some (demo_booking [host, ann])), [])"
proof -
  have kept: "list_all (kept_for ''ann@example.org'') [demo_booking [host, ann]]"
    by (simp add: kept_for_def demo_booking_def ann_def host_def)
  have "find (matches_target (demo_env (demo_service [host, ann] (\<lambda>rq. 200)) 0)
           ''2030-01-01T19:00:00'') [demo_booking [host, ann]] = Some (demo_booking [host, ann])"
    by (simp add: matches_target_def demo_booking_def host_def demo_env_fields demo_strftime_def
        demo_offset_def)
  with find_matching_first [OF kept, of "demo_env (demo_service [host, ann] (\<lambda>rq. 200)) 0"
      "''2030-01-01T19:00:00''" "[]"] kept
  show ?thesis by simp
qed

text \<open>
  \<^verbatim>\<open>reschedule_booking\<close> with none of the three optional values set (absent, empty or zero)
  fails its validation before any external call: the history is unchanged.
\<close>

theorem reschedule_validation_first:
  "\<not> truthy_str new_date \<Longrightarrow> \<not> truthy_str new_time \<Longrightarrow> \<not> truthy_int new_duration \<Longrightarrow>
   reschedule_booking env user_email meeting_date meeting_time new_date new_time new_duration h
     = (Inl (ValueError ''No new values provided for rescheduling''), h)"
  by (rule reschedule_booking_no_new_values) simp

theorem reschedule_validation_first_witness:
  "\<not> truthy_str None \<and> \<not> truthy_int None
   \<and> reschedule_booking (demo_env (demo_service [ann] (\<lambda>rq. 429)) 0) ''ann@example.org''
       ''2030-01-01'' ''10:00'' None None None [Slept 1]
     = (Inl (ValueError ''No new values provided for rescheduling''), [Slept 1])"
proof -
  have a: "\<not> truthy_str None" by (simp add: truthy_str_def)
  have b: "\<not> truthy_int None" by (simp add: truthy_int_def)
  from reschedule_validation_first [OF a a b] a b show ?thesis by simp
qed

text \<open>
  Four answers with status 429 and then one with status 200: the transport succeeds on
  the fifth attempt, after sleeps of 1.5, 2.5, 4.5 and 8.5 seconds (every draw being 0.5).
\<close>

theorem make_api_request_fifth_attempt:
  "make_api_request (demo_env four_429_then_200 0) (get_request BookingReferencesUrl) []
     = (Inr (Some \<lparr>status_code = 200, reason_phrase = ''OK'',
                    response_url = ''https://api.cal.com/v1/booking-references?apiKey=KEY'',
                    json = empty_json\<rparr>),
        [Sent (get_request BookingReferencesUrl), Slept (3 / 2),
         Sent (get_request BookingReferencesUrl), Slept (5 / 2),
         Sent (get_request BookingReferencesUrl), Slept (9 / 2),
         Sent (get_request BookingReferencesUrl), Slept (17 / 2),
         Sent (get_request BookingReferencesUrl)])"
proof -
  let ?env = "demo_env four_429_then_200 0"
  let ?rq = "get_request BookingReferencesUrl"
  have url: "rq_url ?rq = BookingReferencesUrl"
    by (simp add: get_request_def)
  have count: "length (requests_of (transport_history ?env ?rq k [])) = k" for k
    by (induction k) (simp_all add: Let_def requests_of_append)
  have limited: "answered_429 (net ?env (transport_history ?env ?rq k []) ?rq)" if "k < 4" for k
    using that by (simp add: answered_429_def demo_env_fields four_429_then_200_def count)
  obtain k where k: "k < 5"
      "k = 4 \<or> \<not> answered_429 (net ?env (transport_history ?env ?rq k []) ?rq)"
      "make_api_request ?env ?rq []
        = (returned (attempt_outcome (net ?env (transport_history ?env ?rq k []) ?rq)),
           transport_history ?env ?rq k [] @ [Sent ?rq])"
    using make_api_request_shape [of ?env ?rq "[]"] by blast
  have "k = 4"
  proof (rule ccontr)
    assume "k \<noteq> 4"
    with k(1) have "k < 4" by simp
    with limited k(2) \<open>k \<noteq> 4\<close> show False by blast
  qed
  with k(3) have "make_api_request ?env ?rq []
      = (returned (attempt_outcome (net ?env (transport_history ?env ?rq 4 []) ?rq)),
         transport_history ?env ?rq 4 [] @ [Sent ?rq])"
    by simp
  moreover have "net ?env (transport_history ?env ?rq 4 []) ?rq
      = Resp \<lparr>status_code = 200, reason_phrase = ''OK'',
               response_url = ''https://api.cal.com/v1/booking-references?apiKey=KEY'',
               json = empty_json\<rparr>"
    by (simp add: demo_env_fields four_429_then_200_def count demo_reason_def url_text_def url)
  moreover have "transport_history ?env ?rq 4 []
      = [Sent ?rq, Slept (3 / 2), Sent ?rq, Slept (5 / 2), Sent ?rq, Slept (9 / 2),
         Sent ?rq, Slept (17 / 2)]"
    by (simp add: eval_nat_numeral Let_def demo_env_fields)
  ultimately show ?thesis
    by (simp add: returned_def attempt_outcome_def)
qed


lemma delete_reference_run:
  "delete_reference env booking_id user_email meeting_date meeting_time refs =
     (case find (\<lambda>ref. ref_bookingId ref = booking_id) refs of
        None \<Rightarrow>
          ret (''Successfully cancelled booking for '' @ user_email @ '' on '' @ meeting_date
               @ '' at '' @ meeting_time @ '', but no matching reference found to delete'')
      | Some reference \<Rightarrow>
          bind (make_api_request env
                  (delete_request (BookingReferenceUrl (ref_id reference)) None)) (\<lambda>delete_response.
          bind (response_status_code delete_response) (\<lambda>status.
            if status = 200 then
              ret (''Successfully cancelled booking and deleted reference for '' @ user_email
                   @ '' on '' @ meeting_date @ '' at '' @ meeting_time)
            else
              bind (response_json delete_response) (\<lambda>body.
              ret (''Booking cancelled but error deleting reference: ''
                   @ dict_get (j_message body) ''Unknown error'')))))"
  by (induction refs) simp_all

text \<open>
  \<^verbatim>\<open>cancel_user_booking\<close> after a cancel call answered with status 200 and a fetched
  reference list. With no reference for the booking it returns the text that says so.
  Otherwise it deletes the first such reference: a 200 gives the plain success text, a
  returned response with another status the text \<open>Booking cancelled but error deleting
  reference\<close>, and an exception of the deletion (every error status raises one) the text
  \<open>Error cancelling booking or deleting reference\<close>.
\<close>

theorem cancel_after_cancel_call:
  assumes "find_booking env user_email meeting_date meeting_time h = (Inr (Some found), h1)"
    and "make_api_request env
           (delete_request (BookingCancelUrl (b_id found))
              (if truthy_str cancellation_reason then cancellation_reason else None)) h1
         = (Inr (Some cancel_response), h2)"
    and "status_code cancel_response = 200"
    and "make_api_request env (get_request BookingReferencesUrl) h2
         = (Inr (Some references_response), h3)"
  shows "(find (\<lambda>ref. ref_bookingId ref = b_id found)
            (dict_get (j_booking_references (json references_response)) []) = None \<longrightarrow>
          cancel_user_booking env user_email meeting_date meeting_time cancellation_reason h
            = (Inr (''Successfully cancelled booking for '' @ user_email @ '' on '' @ meeting_date
                    @ '' at '' @ meeting_time @ '', but no matching reference found to delete''),
               h3))
       \<and> (find (\<lambda>ref. ref_bookingId ref = b_id found)
            (dict_get (j_booking_references (json references_response)) []) = Some reference \<longrightarrow>
          (make_api_request env (delete_request (BookingReferenceUrl (ref_id reference)) None) h3
             = (Inr (Some delete_response), h4) \<and> status_code delete_response = 200 \<longrightarrow>
           cancel_user_booking env user_email meeting_date meeting_time cancellation_reason h
             = (Inr (''Successfully cancelled booking and deleted reference for '' @ user_email
                     @ '' on '' @ meeting_date @ '' at '' @ meeting_time), h4))
        \<and> (make_api_request env (delete_request (BookingReferenceUrl (ref_id reference)) None) h3
             = (Inr (Some delete_response), h4) \<and> status_code delete_response \<noteq> 200 \<longrightarrow>
           cancel_user_booking env user_email meeting_date meeting_time cancellation_reason h
             = (Inr (''Booking cancelled but error deleting reference: ''
                     @ dict_get (j_message (json delete_response)) ''Unknown error''), h4))
        \<and> (make_api_request env (delete_request (BookingReferenceUrl (ref_id reference)) None) h3
             = (Inl e, h4) \<longrightarrow>
           cancel_user_booking env user_email meeting_date meeting_time cancellation_reason h
             = (Inr (''Error cancelling booking or deleting reference: '' @ str_exc env e), h4)))"
proof -
  have exc: "is_RequestException e"
    if "make_api_request env (delete_request (BookingReferenceUrl (ref_id reference)) None) h3
          = (Inl e, h4)"
    using that returns_Inl [OF make_api_request_returns] by blast
  show ?thesis
    using assms exc
    by (auto simp: cancel_user_booking_def bind_def try_except_def ret_def Let_def
        response_status_code_def response_json_def delete_reference_run)
qed

theorem cancel_after_cancel_call_witness:
  "cancel_user_booking (demo_env (demo_service [ann] (\<lambda>rq. 200)) 0)
     ''ann@example.org'' ''2030-01-01'' ''10:00'' None []
     = (Inr ''Successfully cancelled booking and deleted reference for ann@example.org on 2030-01-01 at 10:00'',
        [Sent (get_request BookingReferencesUrl), Sent (get_request (BookingUrl 7)),
         Sent (delete_request (BookingCancelUrl 7) None),
         Sent (get_request BookingReferencesUrl),
         Sent (delete_request (BookingReferenceUrl 3) None)])"
proof -
  let ?env = "demo_env (demo_service [ann] (\<lambda>rq. 200)) 0"
  let ?h1 = "[Sent (get_request BookingReferencesUrl), Sent (get_request (BookingUrl 7))]"
  let ?h2 = "?h1 @ [Sent (delete_request (BookingCancelUrl 7) None)]"
  let ?h3 = "?h2 @ [Sent (get_request BookingReferencesUrl)]"
  let ?h4 = "?h3 @ [Sent (delete_request (BookingReferenceUrl 3) None)]"
  let ?ok = "\<lparr>status_code = 200, reason_phrase = ''OK'',
              response_url = ''https://api.cal.com/v1/bookings/7/cancel?apiKey=KEY'',
              json = empty_json\<rparr>"
  let ?gone = "\<lparr>status_code = 200, reason_phrase = ''OK'',
              response_url = ''https://api.cal.com/v1/booking-references/3?apiKey=KEY'',
              json = empty_json\<rparr>"
  let ?refs = "\<lparr>status_code = 200, reason_phrase = ''OK'',
                response_url = ''https://api.cal.com/v1/booking-references?apiKey=KEY'',
                json = empty_json\<lparr>j_booking_references :=
                  Some [\<lparr>ref_id = 3, ref_bookingId = 7, ref_deleted = None\<rparr>]\<rparr>\<rparr>"
  let ?ref = "\<lparr>ref_id = 3, ref_bookingId = 7, ref_deleted = None\<rparr>"
  have found: "find_booking ?env ''ann@example.org'' ''2030-01-01'' ''10:00'' []
      = (Inr (Some (demo_booking [ann])), ?h1)"
    by (rule demo_find_ann)
  have bid: "b_id (demo_booking [ann]) = 7" by (simp add: demo_booking_def)
  have cancel: "make_api_request ?env
           (delete_request (BookingCancelUrl (b_id (demo_booking [ann])))
              (if truthy_str None then None else None)) ?h1
         = (Inr (Some ?ok), ?h2)"
    by (simp add: bid demo_make_api_request returned_def attempt_outcome_def demo_service_def
        delete_request_def demo_reason_def url_text_def demo_texts)
  have st: "status_code ?ok = 200" by simp
  have refs: "make_api_request ?env (get_request BookingReferencesUrl) ?h2 = (Inr (Some ?refs), ?h3)"
    by (simp add: demo_make_api_request returned_def attempt_outcome_def demo_service_def
        get_request_def demo_reason_def url_text_def)
  have fnd: "find (\<lambda>ref. ref_bookingId ref = b_id (demo_booking [ann]))
            (dict_get (j_booking_references (json ?refs)) []) = Some ?ref"
    by (simp add: bid dict_get_def empty_json_def)
  have del: "make_api_request ?env (delete_request (BookingReferenceUrl (ref_id ?ref)) None) ?h3
             = (Inr (Some ?gone), ?h4)"
    by (simp add: demo_make_api_request returned_def attempt_outcome_def demo_service_def
        delete_request_def demo_reason_def url_text_def demo_texts)
  show ?thesis
    using cancel_after_cancel_call [OF found cancel st refs, of ?ref ?gone ?h4] fnd del
    by simp
qed

end
